theory Spec2Isabelle
  imports
    Complex_Main
    "HOL-Library.Char_ord"
    "HOL-Library.List_Lexorder"
    "HOL-Library.Product_Lexorder"
begin

section \<open>Cells, frames and errors\<close>

text \<open>
  The validators of \<^verbatim>\<open>scripts/data_validation.py\<close> read a pandas DataFrame. A cell of
  a frame is a missing value (\<open>NaN\<close>; \<open>NaT\<close> is the missing value of a datetime column),
  a text, a number (a finite float64 or int64, held by its exact value) or a timestamp
  (nanoseconds since the epoch). A timestamp is naive (\<open>Timestamp\<close>, wall-clock time with no
  zone) or timezone-aware (\<open>TimestampTZ\<close>, an instant of UTC); pandas refuses to compare
  the one with the other. A frame has its column labels and its rows; a row gives every
  column a cell.
\<close>

datatype cell = NaN | NaT | Str string | Num real | Timestamp int | TimestampTZ int

definition isnull :: "cell \<Rightarrow> bool" where
  "isnull c = (c = NaN \<or> c = NaT)"

record dataframe =
  columns :: "string list"
  rows :: "(string \<Rightarrow> cell) list"

text \<open>\<^verbatim>\<open>data[c]\<close>: the cells of column \<open>c\<close>, in row order.\<close>

definition column :: "dataframe \<Rightarrow> string \<Rightarrow> cell list" where
  "column data c = map (\<lambda>r. r c) (rows data)"

text \<open>\<^verbatim>\<open>c not in data.columns\<close>\<close>

definition not_in :: "string \<Rightarrow> string list \<Rightarrow> bool" where
  "not_in c cs = (c \<notin> set cs)"

text \<open>
  An exception that leaves a validator is the \<open>Inl\<close> of its result: a \<^verbatim>\<open>ValueError\<close> with
  its message, a \<^verbatim>\<open>TypeError\<close>, or an \<^verbatim>\<open>AttributeError\<close> with the type and the attribute it
  names.
\<close>

datatype error = ValueError string | TypeError | AttributeError string string

section \<open>What the validators take from Python and pandas\<close>

text \<open>
  Rendering a value as text (\<^verbatim>\<open>str\<close> in an f-string, \<^verbatim>\<open>repr\<close> inside a printed list)
  and parsing text as a date or time are the runtime's and pandas' own; the validators
  are modelled for every such library. A parsed date or time is naive or timezone-aware.
  \<^item> \<open>to_datetime\<close> is \<^verbatim>\<open>pd.to_datetime(series, errors='coerce')\<close>: a series over the same
    index, \<open>None\<close> where the result is \<open>NaT\<close>;
  \<^item> \<open>to_datetime_format\<close> is \<^verbatim>\<open>pd.to_datetime(x, format='%H:%M:%S', errors='raise')\<close> on
    one cell: \<open>None\<close> when it raises \<^verbatim>\<open>ValueError\<close>, \<open>Some None\<close> when it returns
    \<open>NaT\<close>, \<open>Some (Some t)\<close> for the timestamp \<open>t\<close>.
\<close>

datatype datetime = Naive int | Aware int

record library =
  py_str :: "cell \<Rightarrow> string"
  py_repr :: "cell \<Rightarrow> string"
  to_datetime :: "cell list \<Rightarrow> datetime option list"
  to_datetime_format :: "cell \<Rightarrow> datetime option option"

text \<open>\<^verbatim>\<open>str(n)\<close> of a length or count.\<close>

fun str_nat :: "nat \<Rightarrow> string" where
  "str_nat n =
     (if n < 10 then [''0123456789'' ! n]
      else str_nat (n div 10) @ [''0123456789'' ! (n mod 10)])"

declare str_nat.simps [simp del]

text \<open>\<^verbatim>\<open>sep.join(parts)\<close>, and \<^verbatim>\<open>repr\<close> of a list of cells.\<close>

fun join :: "string \<Rightarrow> string list \<Rightarrow> string" where
  "join sep [] = []"
| "join sep [p] = p"
| "join sep (p # q # ps) = p @ sep @ join sep (q # ps)"

definition repr_list :: "library \<Rightarrow> cell list \<Rightarrow> string" where
  "repr_list lib xs = ''['' @ join '', '' (map (py_repr lib) xs) @ '']''"

section \<open>Series operations\<close>

text \<open>
  \<^verbatim>\<open>Series.unique()\<close>: the distinct values in order of first appearance; a missing
  value is one of them. \<^verbatim>\<open>Series.nunique()\<close> counts the distinct values that are not
  missing (\<^verbatim>\<open>dropna=True\<close> is its default).
\<close>

definition unique :: "'a list \<Rightarrow> 'a list" where
  "unique xs = rev (remdups (rev xs))"

definition nunique :: "cell list \<Rightarrow> nat" where
  "nunique vs = length (unique (filter (\<lambda>v. \<not> isnull v) vs))"

text \<open>
  The order in which \<^verbatim>\<open>groupby\<close> (\<^verbatim>\<open>sort=True\<close>) lists its group keys: numbers by
  value, texts by code points, timestamps by time, and numbers before timestamps before
  texts where a column mixes them. A missing value is never a group key.
\<close>

fun sort_rank :: "cell \<Rightarrow> nat \<times> real \<times> string" where
  "sort_rank (Num x) = (0, x, [])"
| "sort_rank (Timestamp t) = (1, real_of_int t, [])"
| "sort_rank (TimestampTZ t) = (2, real_of_int t, [])"
| "sort_rank (Str s) = (3, 0, s)"
| "sort_rank NaN = (4, 0, [])"
| "sort_rank NaT = (4, 0, [])"

text \<open>
  \<^verbatim>\<open>data.groupby(key)[val]\<close>: the rows whose key is missing are dropped (\<^verbatim>\<open>dropna=True\<close>
  is the default), the others are grouped by key; each group holds the \<open>val\<close> cells of
  its rows in row order.
\<close>

definition groupby :: "dataframe \<Rightarrow> string \<Rightarrow> string \<Rightarrow> (cell \<times> cell list) list" where
  "groupby data key val =
     (let pairs = filter (\<lambda>(k, v). \<not> isnull k) (map (\<lambda>r. (r key, r val)) (rows data))
      in map (\<lambda>k. (k, map snd (filter (\<lambda>(k', v). k' = k) pairs)))
           (sort_key sort_rank (unique (map fst pairs))))"

text \<open>\<^verbatim>\<open>data.groupby(key)[val].nunique()\<close> and \<^verbatim>\<open>data.groupby(key)[val].unique()\<close>\<close>

definition groupby_nunique :: "dataframe \<Rightarrow> string \<Rightarrow> string \<Rightarrow> (cell \<times> nat) list" where
  "groupby_nunique data key val = map (\<lambda>(k, vs). (k, nunique vs)) (groupby data key val)"

definition groupby_unique :: "dataframe \<Rightarrow> string \<Rightarrow> string \<Rightarrow> (cell \<times> cell list) list" where
  "groupby_unique data key val = map (\<lambda>(k, vs). (k, unique vs)) (groupby data key val)"

text \<open>
  \<^verbatim>\<open>data[c] < x\<close> and \<^verbatim>\<open>data[c] > x\<close> for a number \<open>x\<close>: a missing number compares false;
  a text cell makes the comparison raise \<^verbatim>\<open>TypeError\<close>, and so does a datetime column,
  whether its cells are timestamps or its missing value \<open>NaT\<close>.
\<close>

definition numeric :: "cell \<Rightarrow> bool" where
  "numeric c = (case c of NaN \<Rightarrow> True | Num x \<Rightarrow> True | _ \<Rightarrow> False)"

definition lt_scalar :: "cell list \<Rightarrow> real \<Rightarrow> error + bool list" where
  "lt_scalar cs x =
     (if list_all numeric cs
      then Inr (map (\<lambda>c. case c of Num y \<Rightarrow> y < x | _ \<Rightarrow> False) cs)
      else Inl TypeError)"

definition gt_scalar :: "cell list \<Rightarrow> real \<Rightarrow> error + bool list" where
  "gt_scalar cs x =
     (if list_all numeric cs
      then Inr (map (\<lambda>c. case c of Num y \<Rightarrow> x < y | _ \<Rightarrow> False) cs)
      else Inl TypeError)"

text \<open>\<^verbatim>\<open>data[mask]\<close>: the rows at which the mask is true.\<close>

definition select :: "dataframe \<Rightarrow> bool list \<Rightarrow> dataframe" where
  "select data flags = data\<lparr>rows := map fst (filter snd (zip (rows data) flags))\<rparr>"

text \<open>\<^verbatim>\<open>frame.empty\<close>, for a frame with at least one column.\<close>

definition frame_empty :: "dataframe \<Rightarrow> bool" where
  "frame_empty data = (rows data = [])"

section \<open>The validators\<close>

subsection \<open>\<^verbatim>\<open>validate_id\<close> and \<^verbatim>\<open>validate_delivery_person_id\<close>\<close>

definition validate_id :: "library \<Rightarrow> dataframe \<Rightarrow> error + string list" where
  "validate_id lib data =
     (if not_in ''id'' (columns data) \<or> not_in ''delivery_person_id'' (columns data)
      then Inl (ValueError
        ''The DataFrame must contain 'id' and 'delivery_person_id' columns.'')
      else
        let id_groups = groupby_nunique data ''id'' ''delivery_person_id'';
            discrepancies =
              map (\<lambda>(id_value, count).
                     ''ID '' @ py_str lib id_value @ '' has multiple delivery_person_ids.'')
                (filter (\<lambda>(id_value, count). 1 < count) id_groups);
            delivery_person_groups = groupby_nunique data ''delivery_person_id'' ''id''
        in Inr (discrepancies @
              map (\<lambda>(delivery_person_id, count).
                     ''Delivery Person ID '' @ py_str lib delivery_person_id @
                     '' has multiple ids.'')
                (filter (\<lambda>(delivery_person_id, count). 1 < count) delivery_person_groups)))"


subsection \<open>\<^verbatim>\<open>validate_delivery_person_age\<close>\<close>

text \<open>The returned dictionary is the list of its items in insertion order.\<close>

definition validate_delivery_person_age :: "dataframe \<Rightarrow> error + (cell \<times> cell list) list" where
  "validate_delivery_person_age data =
     (if not_in ''delivery_person_id'' (columns data) \<or>
         not_in ''delivery_person_age'' (columns data)
      then Inl (ValueError
        ''The DataFrame must contain 'delivery_person_id' and 'delivery_person_age' columns.'')
      else
        let age_groups = groupby_unique data ''delivery_person_id'' ''delivery_person_age''
        in Inr (filter (\<lambda>(delivery_person_id, ages). 1 < length ages) age_groups))"

subsection \<open>\<^verbatim>\<open>validate_delivery_time\<close>\<close>

definition validate_delivery_time :: "dataframe \<Rightarrow> error + string list" where
  "validate_delivery_time data =
     (if not_in ''delivery_time'' (columns data)
      then Inl (ValueError ''The DataFrame must contain 'delivery_time' column.'')
      else
        case lt_scalar (column data ''delivery_time'') 0 of
          Inl e \<Rightarrow> Inl e
        | Inr negative \<Rightarrow>
            let negative_times = select data negative;
                discrepancies =
                  (if \<not> frame_empty negative_times then [''Negative delivery times found.'']
                   else [])
            in (case gt_scalar (column data ''delivery_time'') 120 of
                  Inl e \<Rightarrow> Inl e
                | Inr high \<Rightarrow>
                    let high_times = select data high
                    in Inr (discrepancies @
                         (if \<not> frame_empty high_times
                          then [''Delivery times exceeding 120 minutes found.'']
                          else []))))"

subsection \<open>\<^verbatim>\<open>validate_delivery_person_rating\<close>\<close>

text \<open>\<^verbatim>\<open>(series < lo) | (series > hi)\<close>\<close>

definition outside :: "cell list \<Rightarrow> real \<Rightarrow> real \<Rightarrow> error + bool list" where
  "outside cs lo hi =
     (case lt_scalar cs lo of
        Inl e \<Rightarrow> Inl e
      | Inr too_low \<Rightarrow>
          (case gt_scalar cs hi of
             Inl e \<Rightarrow> Inl e
           | Inr too_high \<Rightarrow> Inr (map (\<lambda>(l, h). l \<or> h) (zip too_low too_high))))"





subsection \<open>\<^verbatim>\<open>validate_restaurant_coordinate\<close> and \<^verbatim>\<open>validate_delivery_location_coordinate\<close>\<close>

text \<open>
  The two range checks fill \<^verbatim>\<open>discrepancies\<close> with one message per offending row; nothing
  in those loops can raise once the comparisons have returned. The consistency check then
  asks \<^verbatim>\<open>data.groupby('restaurant_id')[['restaurant_latitude', 'restaurant_longitude']]\<close>,
  a grouped frame of two columns, for \<^verbatim>\<open>unique()\<close>. pandas gives that method to a grouped
  series only: the attribute lookup raises \<^verbatim>\<open>AttributeError\<close>, whatever the rows hold, and
  the dictionary built so far is lost with it.
\<close>

definition validate_restaurant_coordinate ::
    "library \<Rightarrow> dataframe \<Rightarrow> error + (cell \<times> string list) list" where
  "validate_restaurant_coordinate lib data =
     (if not_in ''restaurant_id'' (columns data) \<or>
         not_in ''restaurant_latitude'' (columns data) \<or>
         not_in ''restaurant_longitude'' (columns data)
      then Inl (ValueError
        ''The DataFrame must contain 'restaurant_id', 'restaurant_latitude', and 'restaurant_longitude' columns.'')
      else
        case outside (column data ''restaurant_latitude'') (- 90) 90 of
          Inl e \<Rightarrow> Inl e
        | Inr invalid_latitudes \<Rightarrow>
            (case outside (column data ''restaurant_longitude'') (- 180) 180 of
               Inl e \<Rightarrow> Inl e
             | Inr invalid_longitudes \<Rightarrow>
                 Inl (AttributeError ''DataFrameGroupBy'' ''unique'')))"


subsection \<open>\<^verbatim>\<open>validate_order_date\<close>\<close>

definition datetime_cell :: "datetime option \<Rightarrow> cell" where
  "datetime_cell t =
     (case t of None \<Rightarrow> NaT | Some (Naive x) \<Rightarrow> Timestamp x | Some (Aware x) \<Rightarrow> TimestampTZ x)"

text \<open>\<^verbatim>\<open>data[c] = series\<close> for a column the frame has: the frame itself is changed.\<close>

definition assign :: "dataframe \<Rightarrow> string \<Rightarrow> cell list \<Rightarrow> dataframe" where
  "assign data c vs = data\<lparr>rows := map (\<lambda>(r, v). r(c := v)) (zip (rows data) vs)\<rparr>"

text \<open>
  \<^verbatim>\<open>series > pd.Timestamp.now()\<close> on the converted column. The clock's reading is naive:
  against a timezone-aware date the comparison raises \<^verbatim>\<open>TypeError\<close>. \<open>NaT\<close> compares
  false.
\<close>

definition tz_aware :: "cell \<Rightarrow> bool" where
  "tz_aware c = (case c of TimestampTZ u \<Rightarrow> True | _ \<Rightarrow> False)"

definition gt_timestamp :: "cell list \<Rightarrow> int \<Rightarrow> error + bool list" where
  "gt_timestamp cs t =
     (if list_ex tz_aware cs then Inl TypeError
      else Inr (map (\<lambda>c. case c of Timestamp u \<Rightarrow> t < u | _ \<Rightarrow> False) cs))"

definition is_datetime64_any_dtype :: "cell list \<Rightarrow> bool" where
  "is_datetime64_any_dtype cs =
     list_all (\<lambda>c. case c of NaT \<Rightarrow> True | Timestamp u \<Rightarrow> True | TimestampTZ u \<Rightarrow> True
                   | _ \<Rightarrow> False) cs"

text \<open>
  The function writes the converted column back into the frame it was given, so the
  model returns the frame it leaves behind next to the outcome, the message or the
  exception: the check of the column comes before the write, the comparison with the
  clock after it. \<open>now\<close> is what \<^verbatim>\<open>pd.Timestamp.now()\<close> reads from the clock.
\<close>

definition validate_order_date ::
    "library \<Rightarrow> int \<Rightarrow> dataframe \<Rightarrow> (error + string) \<times> dataframe" where
  "validate_order_date lib now data =
     (if not_in ''order_date'' (columns data)
      then (Inl (ValueError ''The DataFrame must contain 'order_date' column.''), data)
      else
        let missing_dates = select data (map isnull (column data ''order_date''));
            discrepancies =
              (if \<not> frame_empty missing_dates
               then [(''missing_dates'',
                      ''Missing order dates found: '' @ str_nat (length (rows missing_dates)))]
               else []);
            data = assign data ''order_date''
                     (map datetime_cell (to_datetime lib (column data ''order_date'')));
            invalid_dates = select data (map isnull (column data ''order_date''));
            discrepancies = discrepancies @
              (if \<not> frame_empty invalid_dates
               then [(''invalid_dates'',
                      ''Invalid order dates found: '' @
                      repr_list lib (column invalid_dates ''order_date''))]
               else [])
        in case gt_timestamp (column data ''order_date'') now of
             Inl e \<Rightarrow> (Inl e, data)
           | Inr future \<Rightarrow>
               let future_dates = select data future;
                   discrepancies = discrepancies @
                     (if \<not> frame_empty future_dates
                      then [(''future_dates'',
                             ''Future order dates found: '' @
                             repr_list lib (column future_dates ''order_date''))]
                      else []);
                   discrepancies = discrepancies @
                     (if \<not> is_datetime64_any_dtype (column data ''order_date'')
                      then [(''format_error'', ''order_date is not in datetime64[ns] format.'')]
                      else []);
                   result_message =
                     (if discrepancies \<noteq> []
                      then ''Discrepancies found in order dates:\<newline>'' @
                           concat (map (\<lambda>(issue, details). issue @ '': '' @ details @ ''\<newline>'')
                                     discrepancies)
                      else ''All order dates are valid and consistent.'')
               in (Inr result_message, data))"

subsection \<open>\<^verbatim>\<open>validate_order_time\<close>\<close>

text \<open>
  \<^verbatim>\<open>a < b\<close> on two parsed times: false when either is \<open>NaT\<close>, a \<^verbatim>\<open>TypeError\<close> when one is
  naive and the other timezone-aware.
\<close>

fun lt_datetime :: "datetime option \<Rightarrow> datetime option \<Rightarrow> error + bool" where
  "lt_datetime (Some (Naive a)) (Some (Naive b)) = Inr (a < b)"
| "lt_datetime (Some (Aware a)) (Some (Aware b)) = Inr (a < b)"
| "lt_datetime (Some (Naive a)) (Some (Aware b)) = Inl TypeError"
| "lt_datetime (Some (Aware a)) (Some (Naive b)) = Inl TypeError"
| "lt_datetime None b = Inr False"
| "lt_datetime (Some a) None = Inr False"

text \<open>\<^verbatim>\<open>repr\<close> of a list of pairs of cells.\<close>

definition repr_pairs :: "library \<Rightarrow> (cell \<times> cell) list \<Rightarrow> string" where
  "repr_pairs lib ps =
     ''['' @ join '', ''
        (map (\<lambda>(a, b). ''('' @ py_repr lib a @ '', '' @ py_repr lib b @ '')'') ps) @ '']''"

text \<open>
  The loop over \<^verbatim>\<open>data.iterrows()\<close>, with its two lists. A \<^verbatim>\<open>ValueError\<close> of either
  parse is caught and files the row under \<^verbatim>\<open>invalid_times\<close>; the \<^verbatim>\<open>TypeError\<close> of the
  comparison is not caught and ends the function.
\<close>

fun order_time_loop ::
    "library \<Rightarrow> (string \<Rightarrow> cell) list \<Rightarrow> (cell \<times> cell) list \<Rightarrow> (cell \<times> cell) list \<Rightarrow>
     error + (cell \<times> cell) list \<times> (cell \<times> cell) list" where
  "order_time_loop lib [] invalid_times inconsistent_times =
     Inr (invalid_times, inconsistent_times)"
| "order_time_loop lib (row # others) invalid_times inconsistent_times =
     (case to_datetime_format lib (row ''time_ordered'') of
        None \<Rightarrow>
          order_time_loop lib others
            (invalid_times @ [(row ''time_ordered'', row ''time_order_picked'')])
            inconsistent_times
      | Some time_ordered \<Rightarrow>
          (case to_datetime_format lib (row ''time_order_picked'') of
             None \<Rightarrow>
               order_time_loop lib others
                 (invalid_times @ [(row ''time_ordered'', row ''time_order_picked'')])
                 inconsistent_times
           | Some time_order_picked \<Rightarrow>
               (case lt_datetime time_order_picked time_ordered of
                  Inl e \<Rightarrow> Inl e
                | Inr before \<Rightarrow>
                    if before
                    then order_time_loop lib others invalid_times
                           (inconsistent_times @
                              [(row ''time_ordered'', row ''time_order_picked'')])
                    else order_time_loop lib others invalid_times inconsistent_times)))"

text \<open>The \<^verbatim>\<open>discrepancies\<close> dictionary, as the list of its items in insertion order.\<close>

definition order_time_discrepancies ::
    "library \<Rightarrow> dataframe \<Rightarrow> error + (string \<times> string) list" where
  "order_time_discrepancies lib data =
     (let missing_ordered = select data (map isnull (column data ''time_ordered''));
          missing_picked = select data (map isnull (column data ''time_order_picked''));
          discrepancies =
            (if \<not> frame_empty missing_ordered
             then [(''missing_time_ordered'',
                    ''Missing time_ordered found: '' @ str_nat (length (rows missing_ordered)))]
             else []);
          discrepancies = discrepancies @
            (if \<not> frame_empty missing_picked
             then [(''missing_time_order_picked'',
                    ''Missing time_order_picked found: '' @
                    str_nat (length (rows missing_picked)))]
             else [])
      in case order_time_loop lib (rows data) [] [] of
           Inl e \<Rightarrow> Inl e
         | Inr (invalid_times, inconsistent_times) \<Rightarrow>
             let discrepancies = discrepancies @
                   (if invalid_times \<noteq> []
                    then [(''invalid_times'',
                           ''Invalid time formats found: '' @ repr_pairs lib invalid_times)]
                    else [])
             in Inr (discrepancies @
                  (if inconsistent_times \<noteq> []
                   then [(''inconsistent_times'',
                          ''Inconsistent times found: '' @ repr_pairs lib inconsistent_times)]
                   else [])))"

definition validate_order_time :: "library \<Rightarrow> dataframe \<Rightarrow> error + string" where
  "validate_order_time lib data =
     (if not_in ''time_ordered'' (columns data) \<or> not_in ''time_order_picked'' (columns data)
      then Inl (ValueError
        ''The DataFrame must contain 'time_ordered' and 'time_order_picked' columns.'')
      else
        case order_time_discrepancies lib data of
          Inl e \<Rightarrow> Inl e
        | Inr discrepancies \<Rightarrow>
            Inr (if discrepancies \<noteq> []
                 then ''Discrepancies found in order times:\<newline>'' @
                      concat (map (\<lambda>(issue, details). issue @ '': '' @ details @ ''\<newline>'')
                                discrepancies)
                 else ''All order times are valid and consistent.''))"

subsection \<open>\<^verbatim>\<open>validate_weather_condition\<close>\<close>

text \<open>
  A value of the \<^verbatim>\<open>discrepancies\<close> dictionary is a text or the dictionary
  \<^verbatim>\<open>{"count": n, "list": values}\<close>.
\<close>

datatype details = Text string | CountList nat "cell list"

definition expected_conditions :: "string list" where
  "expected_conditions = [''Fog'', ''Cloudy'', ''Sunny'', ''Sandstorms'', ''Windy'', ''Stormy'']"

text \<open>\<^verbatim>\<open>series.isin(values)\<close> for a set of texts: false at a missing value.\<close>

definition isin :: "cell list \<Rightarrow> string list \<Rightarrow> bool list" where
  "isin cs values = map (\<lambda>c. case c of Str s \<Rightarrow> s \<in> set values | _ \<Rightarrow> False) cs"

definition weather_condition_discrepancies :: "dataframe \<Rightarrow> (string \<times> details) list" where
  "weather_condition_discrepancies data =
     (let missing_conditions = select data (map isnull (column data ''weather_condition''));
          discrepancies =
            (if \<not> frame_empty missing_conditions
             then [(''missing_weather_conditions'',
                    Text (''Missing weather conditions found: '' @
                          str_nat (length (rows missing_conditions))))]
             else []);
          invalid_conditions =
            select data (map Not (isin (column data ''weather_condition'') expected_conditions))
      in discrepancies @
           (if \<not> frame_empty invalid_conditions
            then [(''invalid_weather_conditions'',
                   CountList (length (rows invalid_conditions))
                     (unique (column invalid_conditions ''weather_condition'')))]
            else []))"

definition validate_weather_condition :: "library \<Rightarrow> dataframe \<Rightarrow> error + string" where
  "validate_weather_condition lib data =
     (if not_in ''weather_condition'' (columns data)
      then Inl (ValueError ''The DataFrame must contain 'weather_condition' column.'')
      else
        let discrepancies = weather_condition_discrepancies data
        in Inr (if discrepancies \<noteq> []
                then ''Discrepancies found in weather conditions:\<newline>'' @
                     concat (map (\<lambda>(issue, details).
                                (case details of
                                   CountList n values \<Rightarrow>
                                     issue @ '': '' @ str_nat n @ '' found. List: '' @
                                     repr_list lib values @ ''\<newline>''
                                 | Text t \<Rightarrow> issue @ '': '' @ t @ ''\<newline>''))
                               discrepancies)
                else ''All weather conditions are valid and consistent.''))"

subsection \<open>The other validators of a set of expected values\<close>









section \<open>A library to run the model on\<close>

text \<open>
  The theorems below hold for every library. To run the validators on a concrete frame
  one is fixed here. It renders a text as itself (quoted under \<^verbatim>\<open>repr\<close>), a missing
  value as \<^verbatim>\<open>nan\<close> or \<^verbatim>\<open>NaT\<close>, and a whole number or a timestamp by its decimal digits.
  It reads a time of day written \<^verbatim>\<open>HH:MM:SS\<close> with two digits per field, and a date
  written \<^verbatim>\<open>YYYY-MM-DD\<close>, alone or followed by a time of day, or by a time of day and an
  offset from UTC as in \<^verbatim>\<open>2022-03-19 10:00:00+05:30\<close>; a date with an offset is
  timezone-aware. It agrees with pandas on the cells of the frames it is run on below.
\<close>

definition str_int :: "int \<Rightarrow> string" where
  "str_int i = (if i < 0 then ''-'' @ str_nat (nat (- i)) else str_nat (nat i))"

definition plain_str :: "cell \<Rightarrow> string" where
  "plain_str c =
     (case c of
        NaN \<Rightarrow> ''nan''
      | NaT \<Rightarrow> ''NaT''
      | Str s \<Rightarrow> s
      | Num x \<Rightarrow> str_int \<lfloor>x\<rfloor>
      | Timestamp t \<Rightarrow> str_int t
      | TimestampTZ t \<Rightarrow> str_int t)"

definition plain_repr :: "cell \<Rightarrow> string" where
  "plain_repr c = (case c of Str s \<Rightarrow> [CHR 0x27] @ s @ [CHR 0x27] | _ \<Rightarrow> plain_str c)"

definition two_digits :: "char \<Rightarrow> char \<Rightarrow> nat option" where
  "two_digits a b =
     (if a \<in> set ''0123456789'' \<and> b \<in> set ''0123456789''
      then Some (10 * (of_char a - 48) + (of_char b - 48))
      else None)"

text \<open>
  Nanoseconds from the epoch to the given second of the day 1900-01-01, the date pandas
  gives a bare time.
\<close>

definition clock_time :: "nat \<Rightarrow> int" where
  "clock_time seconds = (int seconds - 2208988800) * 1000000000"

text \<open>The seconds of a time of day \<^verbatim>\<open>HH:MM:SS\<close>.\<close>

definition time_of_day :: "string \<Rightarrow> nat option" where
  "time_of_day s =
     (case s of
        [h1, h2, c1, m1, m2, c2, s1, s2] \<Rightarrow>
          (case (two_digits h1 h2, two_digits m1 m2, two_digits s1 s2) of
             (Some h, Some m, Some sec) \<Rightarrow>
               if c1 = CHR '':'' \<and> c2 = CHR '':'' \<and> h < 24 \<and> m < 60 \<and> sec < 60
               then Some (3600 * h + 60 * m + sec)
               else None
           | _ \<Rightarrow> None)
      | _ \<Rightarrow> None)"

definition plain_time :: "cell \<Rightarrow> datetime option option" where
  "plain_time c =
     (case c of
        NaN \<Rightarrow> Some None
      | NaT \<Rightarrow> Some None
      | Timestamp t \<Rightarrow> Some (Some (Naive t))
      | TimestampTZ t \<Rightarrow> Some (Some (Aware t))
      | Num x \<Rightarrow> None
      | Str s \<Rightarrow>
          (case time_of_day s of
             Some seconds \<Rightarrow> Some (Some (Naive (clock_time seconds)))
           | None \<Rightarrow> None))"

text \<open>The days from the epoch to a date of the Gregorian calendar.\<close>

definition days_in_month :: "nat \<Rightarrow> nat \<Rightarrow> nat" where
  "days_in_month y m =
     (if m = 2 then (if y mod 4 = 0 \<and> (y mod 100 \<noteq> 0 \<or> y mod 400 = 0) then 29 else 28)
      else if m = 4 \<or> m = 6 \<or> m = 9 \<or> m = 11 then 30 else 31)"

definition days_from_civil :: "nat \<Rightarrow> nat \<Rightarrow> nat \<Rightarrow> int" where
  "days_from_civil y m d =
     (let y' = (if m \<le> 2 then int y - 1 else int y);
          era = y' div 400;
          yoe = y' - era * 400;
          doy = (153 * (if 2 < m then int m - 3 else int m + 9) + 2) div 5 + int d - 1;
          doe = yoe * 365 + yoe div 4 - yoe div 100 + doy
      in era * 146097 + doe - 719468)"

definition calendar_date :: "string \<Rightarrow> int option" where
  "calendar_date s =
     (case s of
        [y1, y2, y3, y4, c1, m1, m2, c2, d1, d2] \<Rightarrow>
          (case (two_digits y1 y2, two_digits y3 y4, two_digits m1 m2, two_digits d1 d2) of
             (Some century, Some yy, Some m, Some d) \<Rightarrow>
               if c1 = CHR ''-'' \<and> c2 = CHR ''-'' \<and> 1678 \<le> 100 * century + yy \<and>
                  100 * century + yy \<le> 2261 \<and> 1 \<le> m \<and> m \<le> 12 \<and> 1 \<le> d \<and>
                  d \<le> days_in_month (100 * century + yy) m
               then Some (days_from_civil (100 * century + yy) m d)
               else None
           | _ \<Rightarrow> None)
      | _ \<Rightarrow> None)"

text \<open>The minutes of an offset \<^verbatim>\<open>+HH:MM\<close> or \<^verbatim>\<open>-HH:MM\<close>.\<close>

definition utc_offset :: "string \<Rightarrow> int option" where
  "utc_offset s =
     (case s of
        [sign, h1, h2, c, m1, m2] \<Rightarrow>
          (case (two_digits h1 h2, two_digits m1 m2) of
             (Some h, Some m) \<Rightarrow>
               if c = CHR '':'' \<and> h < 24 \<and> m < 60 \<and> (sign = CHR ''+'' \<or> sign = CHR ''-'')
               then Some ((if sign = CHR ''-'' then - 1 else 1) * int (60 * h + m))
               else None
           | _ \<Rightarrow> None)
      | _ \<Rightarrow> None)"

definition plain_datetime :: "string \<Rightarrow> datetime option" where
  "plain_datetime s =
     (case calendar_date (take 10 s) of
        None \<Rightarrow> None
      | Some days \<Rightarrow>
          if length s = 10 then Some (Naive (days * 86400000000000))
          else if s ! 10 \<noteq> CHR '' '' then None
          else
            (case time_of_day (take 8 (drop 11 s)) of
               None \<Rightarrow> None
             | Some seconds \<Rightarrow>
                 if length s = 19
                 then Some (Naive ((days * 86400 + int seconds) * 1000000000))
                 else
                   (case utc_offset (drop 19 s) of
                      None \<Rightarrow> None
                    | Some minutes \<Rightarrow>
                        Some (Aware ((days * 86400 + int seconds - 60 * minutes) *
                                     1000000000)))))"

definition plain_date :: "cell list \<Rightarrow> datetime option list" where
  "plain_date cs =
     map (\<lambda>c. case c of
                Str s \<Rightarrow> plain_datetime s
              | Timestamp t \<Rightarrow> Some (Naive t)
              | TimestampTZ t \<Rightarrow> Some (Aware t)
              | Num x \<Rightarrow> Some (Naive \<lfloor>x\<rfloor>)
              | _ \<Rightarrow> None) cs"

definition plain_library :: library where
  "plain_library =
     \<lparr>py_str = plain_str, py_repr = plain_repr,
      to_datetime = plain_date, to_datetime_format = plain_time\<rparr>"

section \<open>Notions and frames of the statements\<close>

text \<open>The row whose every cell is missing; example rows are built from it.\<close>

definition blank_row :: "string \<Rightarrow> cell" where
  "blank_row = (\<lambda>c. NaN)"

subsection \<open>Required columns\<close>


subsection \<open>The categories of \<^verbatim>\<open>validate_order_time\<close>, in the claim's words\<close>

text \<open>
  A row fails to parse when either of its two times makes the parse raise
  \<^verbatim>\<open>ValueError\<close>; its picked time is before its ordered time when both parse and the
  comparison holds; its times cannot be compared when both parse and the comparison
  raises. \<open>time_pair\<close> is what the loop files for a row.
\<close>

definition time_pair :: "(string \<Rightarrow> cell) \<Rightarrow> cell \<times> cell" where
  "time_pair row = (row ''time_ordered'', row ''time_order_picked'')"

definition unparseable :: "library \<Rightarrow> (string \<Rightarrow> cell) \<Rightarrow> bool" where
  "unparseable lib row =
     (to_datetime_format lib (row ''time_ordered'') = None \<or>
      to_datetime_format lib (row ''time_order_picked'') = None)"

definition picked_before_ordered :: "library \<Rightarrow> (string \<Rightarrow> cell) \<Rightarrow> bool" where
  "picked_before_ordered lib row =
     (case (to_datetime_format lib (row ''time_ordered''),
            to_datetime_format lib (row ''time_order_picked'')) of
        (Some time_ordered, Some time_order_picked) \<Rightarrow>
          lt_datetime time_order_picked time_ordered = Inr True
      | _ \<Rightarrow> False)"

definition incomparable :: "library \<Rightarrow> (string \<Rightarrow> cell) \<Rightarrow> bool" where
  "incomparable lib row =
     (case (to_datetime_format lib (row ''time_ordered''),
            to_datetime_format lib (row ''time_order_picked'')) of
        (Some time_ordered, Some time_order_picked) \<Rightarrow>
          lt_datetime time_order_picked time_ordered = Inl TypeError
      | _ \<Rightarrow> False)"

text \<open>Three orders: one picked after it was ordered, one before, one with a time that is no time.\<close>

definition order_times_example :: dataframe where
  "order_times_example =
     \<lparr>columns = [''time_ordered'', ''time_order_picked''],
      rows = [blank_row(''time_ordered'' := Str ''21:55:00'', ''time_order_picked'' := Str ''22:10:00''),
              blank_row(''time_ordered'' := Str ''23:50:00'', ''time_order_picked'' := Str ''23:40:00''),
              blank_row(''time_ordered'' := Str ''0.458333333'', ''time_order_picked'' := Str ''11:10:00'')]\<rparr>"

text \<open>
  Two orders: one with a time that is no time, one whose \<^verbatim>\<open>time_ordered\<close> is the
  timezone-aware timestamp 2022-03-19 10:00:00+05:30 next to a picked time in text.
\<close>

definition offset_order_times :: dataframe where
  "offset_order_times =
     \<lparr>columns = [''time_ordered'', ''time_order_picked''],
      rows = [blank_row(''time_ordered'' := Str ''0.458333333'', ''time_order_picked'' := Str ''11:10:00''),
              blank_row(''time_ordered'' := TimestampTZ 1647664200000000000,
                ''time_order_picked'' := Str ''10:20:00'')]\<rparr>"

subsection \<open>Group keys\<close>

text \<open>The non-missing keys of a grouping, in group order.\<close>

definition group_keys :: "dataframe \<Rightarrow> string \<Rightarrow> cell list" where
  "group_keys data key =
     sort_key sort_rank (unique (filter (\<lambda>k. \<not> isnull k) (map (\<lambda>r. r key) (rows data))))"

subsection \<open>An expected weather condition, in the claim's words\<close>

text \<open>A cell is in the domain of the set rule when it is one of the six expected texts.\<close>

definition expected_condition :: "cell \<Rightarrow> bool" where
  "expected_condition c = (case c of Str s \<Rightarrow> s \<in> set expected_conditions | _ \<Rightarrow> False)"

subsection \<open>An order date that is no date\<close>

text \<open>A frame whose one \<^verbatim>\<open>order_date\<close> is a text that is no date.\<close>

definition unparsed_order_date :: dataframe where
  "unparsed_order_date =
     \<lparr>columns = [''order_date''], rows = [blank_row(''order_date'' := Str ''not a date'')]\<rparr>"

section \<open>Selecting rows\<close>

lemma select_rows: "rows (select data (map g (rows data))) = filter g (rows data)"
proof -
  have "map fst (filter snd (zip xs (map g xs))) = filter g xs" for xs :: "(string \<Rightarrow> cell) list"
    by (induction xs) simp_all
  then show ?thesis by (simp add: select_def)
qed

lemma select_column:
  "rows (select data (map g (column data c))) = filter (\<lambda>r. g (r c)) (rows data)"
  using select_rows [of data "\<lambda>r. g (r c)"] by (simp add: column_def comp_def)

section \<open>Delivery times\<close>

lemma validate_delivery_time_eq:
  "validate_delivery_time data =
     (if not_in ''delivery_time'' (columns data)
      then Inl (ValueError ''The DataFrame must contain 'delivery_time' column.'')
      else if \<not> list_all numeric (column data ''delivery_time'') then Inl TypeError
      else Inr ((if filter (\<lambda>r. case r ''delivery_time'' of Num y \<Rightarrow> y < 0 | _ \<Rightarrow> False)
                      (rows data) \<noteq> []
                 then [''Negative delivery times found.''] else []) @
                (if filter (\<lambda>r. case r ''delivery_time'' of Num y \<Rightarrow> 120 < y | _ \<Rightarrow> False)
                      (rows data) \<noteq> []
                 then [''Delivery times exceeding 120 minutes found.''] else [])))"
  by (simp add: validate_delivery_time_def lt_scalar_def gt_scalar_def frame_empty_def
      select_column Let_def)

lemma filter_not_nan:
  "filter (\<lambda>r. case r c of Num y \<Rightarrow> P y | _ \<Rightarrow> False) rs =
   filter (\<lambda>r. case r c of Num y \<Rightarrow> P y | _ \<Rightarrow> False) (filter (\<lambda>r. r c \<noteq> NaN) rs)"
  by (induction rs) (auto split: cell.splits)

lemma numeric_not_nan:
  "list_all numeric (map (\<lambda>r. r c) rs) =
   list_all numeric (map (\<lambda>r. r c) (filter (\<lambda>r. r c \<noteq> NaN) rs))"
  by (induction rs) (auto simp: numeric_def)

text \<open>
  Claim C10. \<^verbatim>\<open>validate_delivery_time\<close> never reports missing values. A missing
  \<^verbatim>\<open>delivery_time\<close> (\<open>NaN\<close>) passes neither the negative check nor the over-120 check: two frames
  with the same columns whose rows agree once the rows with a missing \<^verbatim>\<open>delivery_time\<close>
  are left out (so one is the other with such rows added or removed, anywhere) get the
  same result, and a frame whose \<^verbatim>\<open>delivery_time\<close> is missing in every row gets the empty
  list.
\<close>

theorem validate_delivery_time_ignores_missing:
  "(columns a = columns b \<and>
    filter (\<lambda>r. r ''delivery_time'' \<noteq> NaN) (rows a) =
    filter (\<lambda>r. r ''delivery_time'' \<noteq> NaN) (rows b) \<longrightarrow>
      validate_delivery_time a = validate_delivery_time b) \<and>
   (\<not> not_in ''delivery_time'' (columns a) \<and>
    list_all (\<lambda>r. r ''delivery_time'' = NaN) (rows a) \<longrightarrow>
      validate_delivery_time a = Inr [])"
proof (intro conjI impI)
  assume h: "columns a = columns b \<and>
    filter (\<lambda>r. r ''delivery_time'' \<noteq> NaN) (rows a) =
    filter (\<lambda>r. r ''delivery_time'' \<noteq> NaN) (rows b)"
  show "validate_delivery_time a = validate_delivery_time b"
    unfolding validate_delivery_time_eq column_def
    using h numeric_not_nan [where c = "''delivery_time''" and rs = "rows a"]
      numeric_not_nan [where c = "''delivery_time''" and rs = "rows b"]
      filter_not_nan [where c = "''delivery_time''" and P = "\<lambda>y. y < 0" and rs = "rows a"]
      filter_not_nan [where c = "''delivery_time''" and P = "\<lambda>y. y < 0" and rs = "rows b"]
      filter_not_nan [where c = "''delivery_time''" and P = "\<lambda>y. 120 < y" and rs = "rows a"]
      filter_not_nan [where c = "''delivery_time''" and P = "\<lambda>y. 120 < y" and rs = "rows b"]
    by simp
next
  assume h: "\<not> not_in ''delivery_time'' (columns a) \<and>
    list_all (\<lambda>r. r ''delivery_time'' = NaN) (rows a)"
  then have "filter (\<lambda>r. r ''delivery_time'' \<noteq> NaN) (rows a) = []"
    by (simp add: list_all_iff filter_empty_conv)
  then show "validate_delivery_time a = Inr []"
    unfolding validate_delivery_time_eq column_def
    using h numeric_not_nan [where c = "''delivery_time''" and rs = "rows a"]
      filter_not_nan [where c = "''delivery_time''" and P = "\<lambda>y. y < 0" and rs = "rows a"]
      filter_not_nan [where c = "''delivery_time''" and P = "\<lambda>y. 120 < y" and rs = "rows a"]
    by simp
qed

theorem validate_delivery_time_ignores_missing_witness:
  "validate_delivery_time
     \<lparr>columns = [''delivery_time''],
      rows = [blank_row(''delivery_time'' := Num 130), blank_row,
              blank_row(''delivery_time'' := Num (- 1))]\<rparr> =
   validate_delivery_time
     \<lparr>columns = [''delivery_time''],
      rows = [blank_row, blank_row(''delivery_time'' := Num 130),
              blank_row(''delivery_time'' := Num (- 1)), blank_row]\<rparr> \<and>
   validate_delivery_time \<lparr>columns = [''delivery_time''], rows = [blank_row, blank_row]\<rparr> =
     Inr []"
  using validate_delivery_time_ignores_missing
    [of "\<lparr>columns = [''delivery_time''],
      rows = [blank_row(''delivery_time'' := Num 130), blank_row,
              blank_row(''delivery_time'' := Num (- 1))]\<rparr>"
      "\<lparr>columns = [''delivery_time''],
      rows = [blank_row, blank_row(''delivery_time'' := Num 130),
              blank_row(''delivery_time'' := Num (- 1)), blank_row]\<rparr>"]
    validate_delivery_time_ignores_missing
    [of "\<lparr>columns = [''delivery_time''], rows = [blank_row, blank_row]\<rparr>"
        "\<lparr>columns = [''delivery_time''], rows = [blank_row, blank_row]\<rparr>"]
  by (simp add: blank_row_def not_in_def)


text \<open>
  Claim C10 as stated speaks of every missing \<^verbatim>\<open>delivery_time\<close>. The missing value of a
  datetime column is \<open>NaT\<close>, and a datetime column cannot be compared with a number: on a
  frame whose one \<^verbatim>\<open>delivery_time\<close> is \<open>NaT\<close>, all its values missing, the first comparison
  raises \<^verbatim>\<open>TypeError\<close> and no list is returned.
\<close>

theorem missing_datetime_delivery_time_raises:
  "isnull (column \<lparr>columns = [''delivery_time''],
                   rows = [blank_row(''delivery_time'' := NaT)]\<rparr> ''delivery_time'' ! 0) \<and>
   validate_delivery_time
     \<lparr>columns = [''delivery_time''], rows = [blank_row(''delivery_time'' := NaT)]\<rparr> =
     Inl TypeError"
  by (simp add: validate_delivery_time_eq not_in_def column_def numeric_def isnull_def)

section \<open>Restaurant coordinates\<close>

text \<open>
  Claim C9 says that \<^verbatim>\<open>validate_restaurant_coordinate\<close> records an inconsistent-coordinates
  issue for a \<^verbatim>\<open>restaurant_id\<close> exactly when more than one distinct (latitude, longitude)
  pair occurs among its rows. The function never gets that far: on no frame does it
  return a dictionary, and on a frame with the three columns, one restaurant and two
  different coordinate pairs it ends in the \<^verbatim>\<open>AttributeError\<close> of the grouped \<^verbatim>\<open>unique()\<close>.
\<close>

theorem validate_restaurant_coordinate_raises:
  "validate_restaurant_coordinate lib data \<noteq> Inr d \<and>
   validate_restaurant_coordinate lib
     \<lparr>columns = [''restaurant_id'', ''restaurant_latitude'', ''restaurant_longitude''],
      rows = [blank_row(''restaurant_id'' := Str ''R1'', ''restaurant_latitude'' := Num 12,
                ''restaurant_longitude'' := Num 77),
              blank_row(''restaurant_id'' := Str ''R1'', ''restaurant_latitude'' := Num 13,
                ''restaurant_longitude'' := Num 80)]\<rparr> =
     Inl (AttributeError ''DataFrameGroupBy'' ''unique'')"
  by (simp add: validate_restaurant_coordinate_def not_in_def outside_def lt_scalar_def
      gt_scalar_def column_def numeric_def split: sum.splits)

section \<open>Order times\<close>

lemma lt_datetime_error: "lt_datetime a b = Inl e \<Longrightarrow> e = TypeError"
  by (cases "(a, b)" rule: lt_datetime.cases) simp_all

lemma order_time_loop_filters:
  "list_all (\<lambda>r. \<not> incomparable lib r) rs \<Longrightarrow>
   order_time_loop lib rs invalid inconsistent =
     Inr (invalid @ map time_pair (filter (unparseable lib) rs),
          inconsistent @ map time_pair (filter (picked_before_ordered lib) rs))"
proof (induction rs arbitrary: invalid inconsistent)
  case Nil
  then show ?case by simp
next
  case (Cons row rs)
  then have rest: "list_all (\<lambda>r. \<not> incomparable lib r) rs" and row: "\<not> incomparable lib row"
    by simp_all
  show ?case
    using row lt_datetime_error
    by (auto simp: Cons.IH [OF rest] time_pair_def unparseable_def picked_before_ordered_def
        incomparable_def split: option.splits sum.splits)
qed

lemma order_time_loop_raises:
  "list_ex (incomparable lib) rs \<Longrightarrow>
   order_time_loop lib rs invalid inconsistent = Inl TypeError"
proof (induction rs arbitrary: invalid inconsistent)
  case Nil
  then show ?case by simp
next
  case (Cons row rs)
  show ?case
  proof (cases "incomparable lib row")
    case True
    then show ?thesis
      by (auto simp: incomparable_def split: option.splits)
  next
    case False
    then have rest: "list_ex (incomparable lib) rs" using Cons.prems by simp
    show ?thesis
      using False lt_datetime_error
      by (auto simp: Cons.IH [OF rest] incomparable_def split: option.splits sum.splits)
  qed
qed

lemma categories_exclusive: "\<not> (unparseable lib row \<and> picked_before_ordered lib row)"
  by (auto simp: unparseable_def picked_before_ordered_def split: option.splits)

lemma unparseable_time_pair:
  "time_pair r = time_pair r' \<Longrightarrow> unparseable lib r = unparseable lib r'"
  by (simp add: time_pair_def unparseable_def)

lemma categories_disjoint:
  "set (map time_pair (filter (unparseable lib) rs)) \<inter>
   set (map time_pair (filter (picked_before_ordered lib) rs)) = {}"
proof -
  have False if "unparseable lib r" "picked_before_ordered lib r'"
    "time_pair r' = time_pair r" for r r'
    using that unparseable_time_pair [of r' r lib] categories_exclusive [of lib r'] by simp
  then show ?thesis by auto
qed

text \<open>A part that is joined is in the text, between what comes before and after it.\<close>

lemma join_holds: "x \<in> set xs \<Longrightarrow> \<exists>pre post. join sep xs = pre @ x @ post"
proof (induction sep xs rule: join.induct)
  case (1 sep)
  then show ?case by simp
next
  case (2 sep p)
  then have "join sep [p] = [] @ x @ []" by simp
  then show ?case by blast
next
  case (3 sep p q ps)
  show ?case
  proof (cases "x = p")
    case True
    then have "join sep (p # q # ps) = [] @ x @ (sep @ join sep (q # ps))" by simp
    then show ?thesis by blast
  next
    case False
    then have "x \<in> set (q # ps)" using 3 by simp
    then obtain pre post where "join sep (q # ps) = pre @ x @ post" using 3 by blast
    then have "join sep (p # q # ps) = (p @ sep @ pre) @ x @ post" by simp
    then show ?thesis by blast
  qed
qed

text \<open>The message of \<^verbatim>\<open>validate_order_time\<close> when every comparison returns.\<close>

lemma validate_order_time_eq:
  assumes "\<not> not_in ''time_ordered'' (columns data)"
    and "\<not> not_in ''time_order_picked'' (columns data)"
    and "list_all (\<lambda>r. \<not> incomparable lib r) (rows data)"
  shows "validate_order_time lib data =
     Inr (let missing_ordered = filter (\<lambda>r. isnull (r ''time_ordered'')) (rows data);
              missing_picked = filter (\<lambda>r. isnull (r ''time_order_picked'')) (rows data);
              invalid_times = map time_pair (filter (unparseable lib) (rows data));
              inconsistent_times = map time_pair (filter (picked_before_ordered lib) (rows data));
              lines =
                (if missing_ordered \<noteq> []
                 then ''missing_time_ordered: Missing time_ordered found: '' @
                      str_nat (length missing_ordered) @ ''\<newline>''
                 else []) @
                (if missing_picked \<noteq> []
                 then ''missing_time_order_picked: Missing time_order_picked found: '' @
                      str_nat (length missing_picked) @ ''\<newline>''
                 else []) @
                (if invalid_times \<noteq> []
                 then ''invalid_times: Invalid time formats found: ['' @
                      join '', ''
                        (map (\<lambda>(a, b). ''('' @ py_repr lib a @ '', '' @ py_repr lib b @ '')'')
                           invalid_times) @
                      '']\<newline>''
                 else []) @
                (if inconsistent_times \<noteq> []
                 then ''inconsistent_times: Inconsistent times found: ['' @
                      join '', ''
                        (map (\<lambda>(a, b). ''('' @ py_repr lib a @ '', '' @ py_repr lib b @ '')'')
                           inconsistent_times) @
                      '']\<newline>''
                 else [])
          in if lines \<noteq> [] then ''Discrepancies found in order times:\<newline>'' @ lines
             else ''All order times are valid and consistent.'')"
  using assms(1,2)
  by (simp add: validate_order_time_def order_time_discrepancies_def
      order_time_loop_filters [OF assms(3)] Let_def frame_empty_def select_column repr_pairs_def)

lemma validate_order_time_raises:
  assumes "\<not> not_in ''time_ordered'' (columns data)"
    and "\<not> not_in ''time_order_picked'' (columns data)"
    and "list_ex (incomparable lib) (rows data)"
  shows "validate_order_time lib data = Inl TypeError"
  using assms(1,2)
  by (simp add: validate_order_time_def order_time_discrepancies_def
      order_time_loop_raises [OF assms(3)] Let_def)

lemma pair_rendered:
  assumes "row \<in> set (filter P rs)"
  shows "\<exists>pre post.
     join '', '' (map (\<lambda>(a, b). ''('' @ py_repr lib a @ '', '' @ py_repr lib b @ '')'')
                   (map time_pair (filter P rs))) =
     pre @ (''('' @ py_repr lib (row ''time_ordered'') @ '', '' @
            py_repr lib (row ''time_order_picked'') @ '')'') @ post"
proof (rule join_holds)
  have "(\<lambda>(a, b). ''('' @ py_repr lib a @ '', '' @ py_repr lib b @ '')'') (time_pair row)
        \<in> set (map (\<lambda>(a, b). ''('' @ py_repr lib a @ '', '' @ py_repr lib b @ '')'')
                 (map time_pair (filter P rs)))"
    unfolding set_map by (intro imageI) (rule assms)
  then show "''('' @ py_repr lib (row ''time_ordered'') @ '', '' @
            py_repr lib (row ''time_order_picked'') @ '')''
        \<in> set (map (\<lambda>(a, b). ''('' @ py_repr lib a @ '', '' @ py_repr lib b @ '')'')
                 (map time_pair (filter P rs)))"
    by (simp add: time_pair_def)
qed

text \<open>
  Claim C7, as amended. On a frame in which no row pairs a timezone-aware time with a
  naive one, the loop of \<^verbatim>\<open>validate_order_time\<close> files under \<^verbatim>\<open>invalid_times\<close> exactly the
  rows of which either time fails to parse in the \<^verbatim>\<open>%H:%M:%S\<close> format, and under
  \<^verbatim>\<open>inconsistent_times\<close> exactly the rows of which both times parse with the picked time
  before the ordered one. No row is of both kinds, and the two lists share no entry. A
  row with a time that fails to parse is not dropped: the returned message has the line
  \<^verbatim>\<open>invalid_times: Invalid time formats found: [...]\<close>, whose list is the pairs of the rows
  filed, each as \<^verbatim>\<open>(repr, repr)\<close>, and the pair of that row is written in it; the same holds
  for an inconsistent row and the line \<^verbatim>\<open>inconsistent_times\<close>. On a frame that has a row
  pairing a timezone-aware time with a naive one, the function raises \<^verbatim>\<open>TypeError\<close>.
\<close>

theorem validate_order_time_categories:
  "(list_all (\<lambda>r. \<not> incomparable lib r) (rows data) \<longrightarrow>
      order_time_loop lib (rows data) [] [] =
        Inr (map time_pair (filter (unparseable lib) (rows data)),
             map time_pair (filter (picked_before_ordered lib) (rows data)))) \<and>
   \<not> (unparseable lib row \<and> picked_before_ordered lib row) \<and>
   set (map time_pair (filter (unparseable lib) (rows data))) \<inter>
     set (map time_pair (filter (picked_before_ordered lib) (rows data))) = {} \<and>
   (\<not> not_in ''time_ordered'' (columns data) \<and> \<not> not_in ''time_order_picked'' (columns data) \<and>
    list_all (\<lambda>r. \<not> incomparable lib r) (rows data) \<and>
    row \<in> set (rows data) \<and> unparseable lib row \<longrightarrow>
      (\<exists>missing pre post after.
         validate_order_time lib data =
           Inr (''Discrepancies found in order times:\<newline>'' @ missing @
                ''invalid_times: Invalid time formats found: ['' @
                (pre @
                 (''('' @ py_repr lib (row ''time_ordered'') @ '', '' @
                  py_repr lib (row ''time_order_picked'') @ '')'') @
                 post) @
                '']\<newline>'' @ after) \<and>
         join '', '' (map (\<lambda>(a, b). ''('' @ py_repr lib a @ '', '' @ py_repr lib b @ '')'')
                       (map time_pair (filter (unparseable lib) (rows data)))) =
           pre @
           (''('' @ py_repr lib (row ''time_ordered'') @ '', '' @
            py_repr lib (row ''time_order_picked'') @ '')'') @
           post)) \<and>
   (\<not> not_in ''time_ordered'' (columns data) \<and> \<not> not_in ''time_order_picked'' (columns data) \<and>
    list_all (\<lambda>r. \<not> incomparable lib r) (rows data) \<and>
    row \<in> set (rows data) \<and> picked_before_ordered lib row \<longrightarrow>
      (\<exists>before pre post.
         validate_order_time lib data =
           Inr (''Discrepancies found in order times:\<newline>'' @ before @
                ''inconsistent_times: Inconsistent times found: ['' @
                (pre @
                 (''('' @ py_repr lib (row ''time_ordered'') @ '', '' @
                  py_repr lib (row ''time_order_picked'') @ '')'') @
                 post) @
                '']\<newline>'') \<and>
         join '', '' (map (\<lambda>(a, b). ''('' @ py_repr lib a @ '', '' @ py_repr lib b @ '')'')
                       (map time_pair (filter (picked_before_ordered lib) (rows data)))) =
           pre @
           (''('' @ py_repr lib (row ''time_ordered'') @ '', '' @
            py_repr lib (row ''time_order_picked'') @ '')'') @
           post)) \<and>
   (\<not> not_in ''time_ordered'' (columns data) \<and> \<not> not_in ''time_order_picked'' (columns data) \<and>
    list_ex (incomparable lib) (rows data) \<longrightarrow>
      validate_order_time lib data = Inl TypeError)"
proof (intro conjI impI)
  show "order_time_loop lib (rows data) [] [] =
        Inr (map time_pair (filter (unparseable lib) (rows data)),
             map time_pair (filter (picked_before_ordered lib) (rows data)))"
    if "list_all (\<lambda>r. \<not> incomparable lib r) (rows data)"
    using order_time_loop_filters [OF that, of "[]" "[]"] by simp
  show "\<not> (unparseable lib row \<and> picked_before_ordered lib row)"
    by (rule categories_exclusive)
  show "set (map time_pair (filter (unparseable lib) (rows data))) \<inter>
     set (map time_pair (filter (picked_before_ordered lib) (rows data))) = {}"
    by (rule categories_disjoint)
next
  let ?text = "''('' @ py_repr lib (row ''time_ordered'') @ '', '' @
                  py_repr lib (row ''time_order_picked'') @ '')''"
  let ?render = "\<lambda>(a, b). ''('' @ py_repr lib a @ '', '' @ py_repr lib b @ '')''"
  let ?missing_ordered = "filter (\<lambda>r. isnull (r ''time_ordered'')) (rows data)"
  let ?missing_picked = "filter (\<lambda>r. isnull (r ''time_order_picked'')) (rows data)"
  let ?missing =
    "(if ?missing_ordered \<noteq> []
      then ''missing_time_ordered: Missing time_ordered found: '' @
           str_nat (length ?missing_ordered) @ ''\<newline>''
      else []) @
     (if ?missing_picked \<noteq> []
      then ''missing_time_order_picked: Missing time_order_picked found: '' @
           str_nat (length ?missing_picked) @ ''\<newline>''
      else [])"
  let ?invalid = "map time_pair (filter (unparseable lib) (rows data))"
  let ?inconsistent = "map time_pair (filter (picked_before_ordered lib) (rows data))"
  {
    assume h: "\<not> not_in ''time_ordered'' (columns data) \<and>
      \<not> not_in ''time_order_picked'' (columns data) \<and>
      list_all (\<lambda>r. \<not> incomparable lib r) (rows data) \<and>
      row \<in> set (rows data) \<and> unparseable lib row"
    let ?after =
      "(if ?inconsistent \<noteq> []
        then ''inconsistent_times: Inconsistent times found: ['' @
             join '', '' (map ?render ?inconsistent) @ '']\<newline>''
        else [])"
    have mem: "row \<in> set (filter (unparseable lib) (rows data))" using h by simp
    then have ne: "?invalid \<noteq> []" by (auto simp: filter_empty_conv)
    obtain pre post where j: "join '', '' (map ?render ?invalid) = pre @ ?text @ post"
      using pair_rendered [OF mem] by blast
    have eq: "validate_order_time lib data =
          Inr (''Discrepancies found in order times:\<newline>'' @ ?missing @
               ''invalid_times: Invalid time formats found: ['' @
               join '', '' (map ?render ?invalid) @ '']\<newline>'' @ ?after)"
      using h ne by (simp add: validate_order_time_eq Let_def)
    have "validate_order_time lib data =
           Inr (''Discrepancies found in order times:\<newline>'' @ ?missing @
                ''invalid_times: Invalid time formats found: ['' @
                (pre @ ?text @ post) @ '']\<newline>'' @ ?after) \<and>
          join '', '' (map ?render ?invalid) = pre @ ?text @ post"
      using eq j by (simp only:)
    then show "\<exists>missing pre post after.
         validate_order_time lib data =
           Inr (''Discrepancies found in order times:\<newline>'' @ missing @
                ''invalid_times: Invalid time formats found: ['' @
                (pre @ ?text @ post) @ '']\<newline>'' @ after) \<and>
         join '', '' (map ?render ?invalid) = pre @ ?text @ post"
      by (intro exI)
  }
  {
    assume h: "\<not> not_in ''time_ordered'' (columns data) \<and>
      \<not> not_in ''time_order_picked'' (columns data) \<and>
      list_all (\<lambda>r. \<not> incomparable lib r) (rows data) \<and>
      row \<in> set (rows data) \<and> picked_before_ordered lib row"
    let ?before =
      "?missing @
       (if ?invalid \<noteq> []
        then ''invalid_times: Invalid time formats found: ['' @
             join '', '' (map ?render ?invalid) @ '']\<newline>''
        else [])"
    have mem: "row \<in> set (filter (picked_before_ordered lib) (rows data))" using h by simp
    then have ne: "?inconsistent \<noteq> []" by (auto simp: filter_empty_conv)
    obtain pre post where j: "join '', '' (map ?render ?inconsistent) = pre @ ?text @ post"
      using pair_rendered [OF mem] by blast
    have eq: "validate_order_time lib data =
          Inr (''Discrepancies found in order times:\<newline>'' @ ?before @
               ''inconsistent_times: Inconsistent times found: ['' @
               join '', '' (map ?render ?inconsistent) @ '']\<newline>'')"
      using h ne by (simp add: validate_order_time_eq Let_def)
    have "validate_order_time lib data =
           Inr (''Discrepancies found in order times:\<newline>'' @ ?before @
                ''inconsistent_times: Inconsistent times found: ['' @
                (pre @ ?text @ post) @ '']\<newline>'') \<and>
          join '', '' (map ?render ?inconsistent) = pre @ ?text @ post"
      using eq j by (simp only:)
    then show "\<exists>before pre post.
         validate_order_time lib data =
           Inr (''Discrepancies found in order times:\<newline>'' @ before @
                ''inconsistent_times: Inconsistent times found: ['' @
                (pre @ ?text @ post) @ '']\<newline>'') \<and>
         join '', '' (map ?render ?inconsistent) = pre @ ?text @ post"
      by (intro exI)
  }
  show "validate_order_time lib data = Inl TypeError"
    if "\<not> not_in ''time_ordered'' (columns data) \<and>
        \<not> not_in ''time_order_picked'' (columns data) \<and>
        list_ex (incomparable lib) (rows data)"
    using that validate_order_time_raises by blast
qed

theorem validate_order_time_categories_witness:
  "order_time_loop plain_library (rows order_times_example) [] [] =
     Inr ([(Str ''0.458333333'', Str ''11:10:00'')], [(Str ''23:50:00'', Str ''23:40:00'')]) \<and>
   validate_order_time plain_library order_times_example =
     Inr (''Discrepancies found in order times:\<newline>'' @
          ''invalid_times: Invalid time formats found: [('0.458333333', '11:10:00')]\<newline>'' @
          ''inconsistent_times: Inconsistent times found: [('23:50:00', '23:40:00')]\<newline>'')"
  using validate_order_time_categories [of plain_library order_times_example
      "blank_row(''time_ordered'' := Str ''0.458333333'', ''time_order_picked'' := Str ''11:10:00'')"]
    validate_order_time_categories [of plain_library order_times_example
      "blank_row(''time_ordered'' := Str ''23:50:00'', ''time_order_picked'' := Str ''23:40:00'')"]
  by (simp add: order_times_example_def validate_order_time_def order_time_discrepancies_def
      Let_def select_def frame_empty_def column_def isnull_def blank_row_def repr_pairs_def
      unparseable_def picked_before_ordered_def incomparable_def plain_library_def plain_time_def
      plain_repr_def time_of_day_def two_digits_def clock_time_def time_pair_def not_in_def)

text \<open>
  Claim C7 as stated holds of every frame with the two columns. The first row of
  \<open>offset_order_times\<close> has a time that fails to parse; the second pairs a timezone-aware
  \<^verbatim>\<open>time_ordered\<close>, which the parse returns as it is, with a picked time in text, which parses
  to a naive time. Their comparison raises \<^verbatim>\<open>TypeError\<close>: no report is returned, and the
  first row is reported nowhere.
\<close>

theorem offset_time_ends_order_time_report:
  "unparseable plain_library (rows offset_order_times ! 0) \<and>
   validate_order_time plain_library offset_order_times = Inl TypeError"
  by (simp add: offset_order_times_def validate_order_time_def order_time_discrepancies_def
      Let_def select_def frame_empty_def column_def isnull_def blank_row_def
      unparseable_def plain_library_def plain_time_def time_of_day_def two_digits_def
      clock_time_def not_in_def)

section \<open>Distinct values and groups\<close>

lemma set_unique: "set (unique xs) = set xs"
  by (simp add: unique_def)

lemma distinct_unique: "distinct (unique xs)"
  by (simp add: unique_def)

lemma set_group_keys:
  "set (group_keys data key) = {k \<in> set (column data key). \<not> isnull k}"
  by (auto simp: group_keys_def set_unique column_def)

lemma distinct_group_keys: "distinct (group_keys data key)"
  by (simp add: group_keys_def distinct_unique)

lemma group_pairs_keys:
  "map fst (filter (\<lambda>(k, v). \<not> isnull k) (map (\<lambda>r. (r key, r val)) rs)) =
   filter (\<lambda>k. \<not> isnull k) (map (\<lambda>r. r key) rs)"
  by (induction rs) simp_all

lemma group_pairs_values:
  "\<not> isnull k \<Longrightarrow>
   map snd (filter (\<lambda>x. (case x of (k, v) \<Rightarrow> \<not> isnull k) \<and> (case x of (k', v) \<Rightarrow> k' = k))
      (map (\<lambda>r. (r key, r val)) rs)) =
   map (\<lambda>r. r val) (filter (\<lambda>r. r key = k) rs)"
  by (induction rs) auto

lemma groupby_eq:
  "groupby data key val =
     map (\<lambda>k. (k, map (\<lambda>r. r val) (filter (\<lambda>r. r key = k) (rows data))))
       (group_keys data key)"
proof -
  have "\<not> isnull k" if "k \<in> set (group_keys data key)" for k
    using that by (simp add: set_group_keys)
  then show ?thesis
    by (simp add: groupby_def Let_def group_pairs_keys group_keys_def [symmetric]
        group_pairs_values cong: map_cong)
qed


lemma groupby_unique_eq:
  "groupby_unique data key val =
     map (\<lambda>k. (k, unique (map (\<lambda>r. r val) (filter (\<lambda>r. r key = k) (rows data)))))
       (group_keys data key)"
  by (simp add: groupby_unique_def groupby_eq comp_def)

lemma groupby_nunique_eq:
  "groupby_nunique data key val =
     map (\<lambda>k. (k, nunique (map (\<lambda>r. r val) (filter (\<lambda>r. r key = k) (rows data)))))
       (group_keys data key)"
  by (simp add: groupby_nunique_def groupby_eq comp_def)

section \<open>Delivery person ages\<close>

lemma map_of_keyed:
  "map_of (filter (\<lambda>(k, v). P v) (map (\<lambda>k. (k, f k)) ks)) k =
     (if k \<in> set ks \<and> P (f k) then Some (f k) else None)"
  by (induction ks) auto

lemma keys_keyed:
  "map fst (filter (\<lambda>(k, v). P v) (map (\<lambda>k. (k, f k)) ks)) = filter (\<lambda>k. P (f k)) ks"
  by (induction ks) auto

lemma count_list_distinct:
  "distinct xs \<Longrightarrow> count_list xs x = (if x \<in> set xs then 1 else 0)"
  by (induction xs) auto

lemma no_rows_no_values:
  "k \<notin> set (column data key) \<Longrightarrow> filter (\<lambda>r. r key = k) (rows data) = []"
  by (auto simp: column_def filter_empty_conv)

text \<open>
  Claim C5, as amended. On a frame with the two columns, \<^verbatim>\<open>validate_delivery_person_age\<close>
  returns a dictionary whose keys are distinct. A \<^verbatim>\<open>delivery_person_id\<close> \<open>k\<close> that is not
  missing and whose rows hold two or more distinct ages is a key of it exactly once,
  mapped to the list of all the distinct ages of its rows, in order of first appearance
  (a missing age is one of the distinct values and is listed with them); any other \<open>k\<close>,
  the missing id among them, is not a key. On the rows (1, 30), (1, 31), (2, 40) the
  dictionary is \<^verbatim>\<open>{1: [30, 31]}\<close>.
\<close>

theorem validate_delivery_person_age_reports:
  "(\<not> not_in ''delivery_person_id'' (columns data) \<and>
    \<not> not_in ''delivery_person_age'' (columns data) \<longrightarrow>
      (\<exists>d. validate_delivery_person_age data = Inr d \<and>
           distinct (map fst d) \<and>
           (let ages = unique (map (\<lambda>r. r ''delivery_person_age'')
                         (filter (\<lambda>r. r ''delivery_person_id'' = k) (rows data)))
            in if \<not> isnull k \<and> 2 \<le> length ages
               then map_of d k = Some ages \<and> count_list (map fst d) k = 1
               else map_of d k = None \<and> count_list (map fst d) k = 0))) \<and>
   validate_delivery_person_age
     \<lparr>columns = [''delivery_person_id'', ''delivery_person_age''],
      rows = [blank_row(''delivery_person_id'' := Num 1, ''delivery_person_age'' := Num 30),
              blank_row(''delivery_person_id'' := Num 1, ''delivery_person_age'' := Num 31),
              blank_row(''delivery_person_id'' := Num 2, ''delivery_person_age'' := Num 40)]\<rparr> =
     Inr [(Num 1, [Num 30, Num 31])]"
proof (intro conjI impI)
  let ?vals = "\<lambda>k. unique (map (\<lambda>r. r ''delivery_person_age'')
                 (filter (\<lambda>r. r ''delivery_person_id'' = k) (rows data)))"
  let ?keys = "group_keys data ''delivery_person_id''"
  let ?d = "filter (\<lambda>(k, v). 1 < length v) (map (\<lambda>k. (k, ?vals k)) ?keys)"
  assume h: "\<not> not_in ''delivery_person_id'' (columns data) \<and>
    \<not> not_in ''delivery_person_age'' (columns data)"
  then have r: "validate_delivery_person_age data = Inr ?d"
    by (simp add: validate_delivery_person_age_def groupby_unique_eq Let_def)
  have dist: "distinct (map fst ?d)"
    by (simp add: keys_keyed distinct_group_keys)
  have missing: "k \<notin> set ?keys" if "isnull k"
    using that by (simp add: set_group_keys)
  have absent: "?vals k = []" if "k \<notin> set ?keys" "\<not> isnull k"
    using that no_rows_no_values [of k data "''delivery_person_id''"]
    by (simp add: set_group_keys unique_def)
  have m: "map_of ?d k =
             (if \<not> isnull k \<and> 2 \<le> length (?vals k) then Some (?vals k) else None)"
    using absent missing by (auto simp: map_of_keyed)
  have c: "count_list (map fst ?d) k = (if \<not> isnull k \<and> 2 \<le> length (?vals k) then 1 else 0)"
    using absent missing dist by (auto simp: count_list_distinct keys_keyed)
  show "\<exists>d. validate_delivery_person_age data = Inr d \<and>
           distinct (map fst d) \<and>
           (let ages = unique (map (\<lambda>r. r ''delivery_person_age'')
                         (filter (\<lambda>r. r ''delivery_person_id'' = k) (rows data)))
            in if \<not> isnull k \<and> 2 \<le> length ages
               then map_of d k = Some ages \<and> count_list (map fst d) k = 1
               else map_of d k = None \<and> count_list (map fst d) k = 0)"
    using r dist m c by (simp add: Let_def)
next
  show "validate_delivery_person_age
     \<lparr>columns = [''delivery_person_id'', ''delivery_person_age''],
      rows = [blank_row(''delivery_person_id'' := Num 1, ''delivery_person_age'' := Num 30),
              blank_row(''delivery_person_id'' := Num 1, ''delivery_person_age'' := Num 31),
              blank_row(''delivery_person_id'' := Num 2, ''delivery_person_age'' := Num 40)]\<rparr> =
     Inr [(Num 1, [Num 30, Num 31])]"
    by (simp add: validate_delivery_person_age_def not_in_def groupby_unique_def groupby_def
        isnull_def unique_def blank_row_def)
qed

theorem validate_delivery_person_age_reports_witness:
  "(\<exists>d. validate_delivery_person_age
          \<lparr>columns = [''delivery_person_id'', ''delivery_person_age''],
           rows = [blank_row(''delivery_person_id'' := Num 1, ''delivery_person_age'' := Num 30),
                   blank_row(''delivery_person_id'' := Num 1, ''delivery_person_age'' := Num 31),
                   blank_row(''delivery_person_id'' := Num 2, ''delivery_person_age'' := Num 40)]\<rparr>
        = Inr d \<and>
        map_of d (Num 1) = Some [Num 30, Num 31] \<and> count_list (map fst d) (Num 1) = 1 \<and>
        map_of d (Num 2) = None) \<and>
   (\<exists>d. validate_delivery_person_age
          \<lparr>columns = [''delivery_person_id'', ''delivery_person_age''],
           rows = [blank_row(''delivery_person_age'' := Num 20),
                   blank_row(''delivery_person_age'' := Num 21)]\<rparr> = Inr d \<and>
        map_of d NaN = None \<and> count_list (map fst d) NaN = 0)"
  using validate_delivery_person_age_reports
      [of "\<lparr>columns = [''delivery_person_id'', ''delivery_person_age''],
           rows = [blank_row(''delivery_person_id'' := Num 1, ''delivery_person_age'' := Num 30),
                   blank_row(''delivery_person_id'' := Num 1, ''delivery_person_age'' := Num 31),
                   blank_row(''delivery_person_id'' := Num 2, ''delivery_person_age'' := Num 40)]\<rparr>"
          "Num 1"]
    validate_delivery_person_age_reports
      [of "\<lparr>columns = [''delivery_person_id'', ''delivery_person_age''],
           rows = [blank_row(''delivery_person_id'' := Num 1, ''delivery_person_age'' := Num 30),
                   blank_row(''delivery_person_id'' := Num 1, ''delivery_person_age'' := Num 31),
                   blank_row(''delivery_person_id'' := Num 2, ''delivery_person_age'' := Num 40)]\<rparr>"
          "Num 2"]
    validate_delivery_person_age_reports
      [of "\<lparr>columns = [''delivery_person_id'', ''delivery_person_age''],
           rows = [blank_row(''delivery_person_age'' := Num 20),
                   blank_row(''delivery_person_age'' := Num 21)]\<rparr>" NaN]
  by (auto simp: not_in_def isnull_def unique_def blank_row_def)

text \<open>
  Claim C5 as stated speaks of each \<^verbatim>\<open>delivery_person_id\<close> whose rows hold two or more
  distinct ages. Two rows whose \<^verbatim>\<open>delivery_person_id\<close> is missing hold the ages 20 and 21;
  the grouping leaves them out and the dictionary is empty.
\<close>

theorem missing_delivery_person_id_ages_unreported:
  "unique (map (\<lambda>r. r ''delivery_person_age'')
     (filter (\<lambda>r. r ''delivery_person_id'' = NaN)
        [blank_row(''delivery_person_age'' := Num 20),
         blank_row(''delivery_person_age'' := Num 21)])) = [Num 20, Num 21] \<and>
   validate_delivery_person_age
     \<lparr>columns = [''delivery_person_id'', ''delivery_person_age''],
      rows = [blank_row(''delivery_person_age'' := Num 20),
              blank_row(''delivery_person_age'' := Num 21)]\<rparr> = Inr []"
  by (simp add: validate_delivery_person_age_def not_in_def groupby_unique_def groupby_def
      isnull_def unique_def blank_row_def)

section \<open>Weather conditions\<close>

lemma select_column_rows:
  "column (select data (map g (column data c))) c' =
   map (\<lambda>r. r c') (filter (\<lambda>r. g (r c)) (rows data))"
  by (simp add: column_def [of "select data flags" for flags] select_column)

lemma weather_condition_discrepancies_eq:
  "weather_condition_discrepancies data =
     (if filter (\<lambda>r. isnull (r ''weather_condition'')) (rows data) \<noteq> []
      then [(''missing_weather_conditions'',
             Text (''Missing weather conditions found: '' @
                   str_nat (length (filter (\<lambda>r. isnull (r ''weather_condition'')) (rows data)))))]
      else []) @
     (if filter (\<lambda>r. \<not> expected_condition (r ''weather_condition'')) (rows data) \<noteq> []
      then [(''invalid_weather_conditions'',
             CountList
               (length (filter (\<lambda>r. \<not> expected_condition (r ''weather_condition'')) (rows data)))
               (unique (map (\<lambda>r. r ''weather_condition'')
                  (filter (\<lambda>r. \<not> expected_condition (r ''weather_condition'')) (rows data)))))]
      else [])"
proof -
  have "map Not (isin cs expected_conditions) = map (\<lambda>c. \<not> expected_condition c) cs" for cs
    by (simp add: isin_def expected_condition_def)
  then show ?thesis
    by (simp add: weather_condition_discrepancies_def Let_def frame_empty_def select_column
        select_column_rows)
qed

lemma null_not_expected: "isnull c \<Longrightarrow> \<not> expected_condition c"
  by (auto simp: isnull_def expected_condition_def)

text \<open>
  Claim C6, as amended. A row whose \<^verbatim>\<open>weather_condition\<close> is missing is reported under the
  missing-values category and, besides, counted among the invalid weather conditions:
  when some row's value is missing, the report has both entries, the count of invalid
  conditions is the number of rows whose value is not one of the expected texts, the
  missing ones among them, and the list of invalid values holds the missing value.
\<close>

theorem weather_missing_also_invalid:
  assumes "row \<in> set (rows data)" and "isnull (row ''weather_condition'')"
  shows "weather_condition_discrepancies data =
           [(''missing_weather_conditions'',
             Text (''Missing weather conditions found: '' @
                   str_nat (length (filter (\<lambda>r. isnull (r ''weather_condition'')) (rows data))))),
            (''invalid_weather_conditions'',
             CountList
               (length (filter (\<lambda>r. \<not> expected_condition (r ''weather_condition'')) (rows data)))
               (unique (map (\<lambda>r. r ''weather_condition'')
                  (filter (\<lambda>r. \<not> expected_condition (r ''weather_condition'')) (rows data)))))] \<and>
         row \<in> set (filter (\<lambda>r. \<not> expected_condition (r ''weather_condition'')) (rows data)) \<and>
         row ''weather_condition'' \<in> set (unique (map (\<lambda>r. r ''weather_condition'')
                  (filter (\<lambda>r. \<not> expected_condition (r ''weather_condition'')) (rows data))))"
proof -
  have n: "\<not> expected_condition (row ''weather_condition'')"
    using assms(2) by (rule null_not_expected)
  have 1: "filter (\<lambda>r. isnull (r ''weather_condition'')) (rows data) \<noteq> []"
    using assms by (auto simp: filter_empty_conv)
  have 2: "filter (\<lambda>r. \<not> expected_condition (r ''weather_condition'')) (rows data) \<noteq> []"
    using assms(1) n by (auto simp: filter_empty_conv)
  show ?thesis
    using 1 2 assms(1) n by (simp add: weather_condition_discrepancies_eq set_unique)
qed

theorem weather_missing_also_invalid_witness:
  "weather_condition_discrepancies
     \<lparr>columns = [''weather_condition''],
      rows = [blank_row(''weather_condition'' := Str ''Sunny''), blank_row,
              blank_row(''weather_condition'' := Str ''Foggy''), blank_row]\<rparr> =
     [(''missing_weather_conditions'', Text ''Missing weather conditions found: 2''),
      (''invalid_weather_conditions'', CountList 3 [NaN, Str ''Foggy''])]"
  using weather_missing_also_invalid [of blank_row
     "\<lparr>columns = [''weather_condition''],
      rows = [blank_row(''weather_condition'' := Str ''Sunny''), blank_row,
              blank_row(''weather_condition'' := Str ''Foggy''), blank_row]\<rparr>"]
  by (simp add: blank_row_def isnull_def expected_condition_def expected_conditions_def
      unique_def str_nat.simps)

text \<open>
  Claim C6 as stated says the missing row is not counted among the invalid conditions.
  On the two rows \<^verbatim>\<open>Sunny\<close> and missing, the only value outside the expected set is the
  missing one, and the report counts one invalid condition and lists \<^verbatim>\<open>nan\<close>.
\<close>

theorem weather_missing_counted_invalid:
  "weather_condition_discrepancies
     \<lparr>columns = [''weather_condition''],
      rows = [blank_row(''weather_condition'' := Str ''Sunny''), blank_row]\<rparr> =
     [(''missing_weather_conditions'', Text ''Missing weather conditions found: 1''),
      (''invalid_weather_conditions'', CountList 1 [NaN])] \<and>
   validate_weather_condition plain_library
     \<lparr>columns = [''weather_condition''],
      rows = [blank_row(''weather_condition'' := Str ''Sunny''), blank_row]\<rparr> =
     Inr (''Discrepancies found in weather conditions:\<newline>'' @
          ''missing_weather_conditions: Missing weather conditions found: 1\<newline>'' @
          ''invalid_weather_conditions: 1 found. List: [nan]\<newline>'')"
  by (simp add: validate_weather_condition_def weather_condition_discrepancies_eq not_in_def
      blank_row_def isnull_def expected_condition_def expected_conditions_def unique_def
      str_nat.simps repr_list_def plain_library_def plain_repr_def plain_str_def)

section \<open>Identifiers\<close>

lemma group_keys_drop_missing:
  "group_keys (data\<lparr>rows := filter (\<lambda>r. \<not> isnull (r key)) (rows data)\<rparr>) key =
   group_keys data key"
proof -
  have "filter (\<lambda>k. \<not> isnull k) (map (\<lambda>r. r key) (filter (\<lambda>r. \<not> isnull (r key)) rs)) =
        filter (\<lambda>k. \<not> isnull k) (map (\<lambda>r. r key) rs)" for rs
    by (induction rs) simp_all
  then show ?thesis by (simp add: group_keys_def)
qed

lemma group_rows_drop_missing:
  "\<not> isnull k \<Longrightarrow>
   filter (\<lambda>r. r key = k) (filter (\<lambda>r. \<not> isnull (r key)) rs) = filter (\<lambda>r. r key = k) rs"
  by (induction rs) auto

lemma groupby_nunique_drop_missing:
  "groupby_nunique (data\<lparr>rows := filter (\<lambda>r. \<not> isnull (r key)) (rows data)\<rparr>) key val =
   groupby_nunique data key val"
proof -
  have "\<not> isnull k" if "k \<in> set (group_keys data key)" for k
    using that by (simp add: set_group_keys)
  then show ?thesis
    unfolding groupby_nunique_eq group_keys_drop_missing
    by (simp add: group_rows_drop_missing del: filter_filter cong: map_cong)
qed

lemma groupby_nunique_keys_present:
  "list_all (\<lambda>(k, n). \<not> isnull k) (groupby_nunique data key val)"
  by (simp add: groupby_nunique_eq list_all_iff set_group_keys)

lemma sort_rank_inj:
  "\<not> isnull a \<Longrightarrow> \<not> isnull b \<Longrightarrow> sort_rank a = sort_rank b \<Longrightarrow> a = b"
  by (cases a; cases b) (simp_all add: isnull_def)

lemma sort_key_same_set:
  assumes "distinct xs" "distinct ys" "set xs = set ys" "inj_on f (set xs)"
  shows "sort_key f xs = sort_key f ys"
proof -
  have "map f (sort_key f xs) = map f (sort_key f ys)"
  proof (rule sorted_distinct_set_unique)
    show "sorted (map f (sort_key f xs))" "sorted (map f (sort_key f ys))"
      by simp_all
    show "distinct (map f (sort_key f xs))" "distinct (map f (sort_key f ys))"
      using assms by (simp_all add: distinct_map)
    show "set (map f (sort_key f xs)) = set (map f (sort_key f ys))"
      using assms(3) by simp
  qed
  moreover have "inj_on f (set (sort_key f xs) \<union> set (sort_key f ys))"
    using assms(3,4) by simp
  ultimately show ?thesis by (simp add: inj_on_map_eq_map)
qed

lemma nunique_drop_missing:
  "nunique (map (\<lambda>r. r val) (filter (\<lambda>r. r key = k) (filter (\<lambda>r. \<not> isnull (r val)) rs))) =
   nunique (map (\<lambda>r. r val) (filter (\<lambda>r. r key = k) rs))"
proof -
  have "filter (\<lambda>v. \<not> isnull v)
          (map (\<lambda>r. r val) (filter (\<lambda>r. r key = k) (filter (\<lambda>r. \<not> isnull (r val)) rs))) =
        filter (\<lambda>v. \<not> isnull v) (map (\<lambda>r. r val) (filter (\<lambda>r. r key = k) rs))"
    by (induction rs) simp_all
  then show ?thesis by (simp only: nunique_def)
qed

lemma nunique_positive:
  "0 < nunique (map (\<lambda>r. r val) (filter (\<lambda>r. r key = k) rs)) \<Longrightarrow>
   \<exists>r \<in> set rs. r key = k \<and> \<not> isnull (r val)"
proof -
  assume "0 < nunique (map (\<lambda>r. r val) (filter (\<lambda>r. r key = k) rs))"
  then have "filter (\<lambda>v. \<not> isnull v) (map (\<lambda>r. r val) (filter (\<lambda>r. r key = k) rs)) \<noteq> []"
    by (auto simp: nunique_def unique_def)
  then show ?thesis by (auto simp: filter_empty_conv)
qed

text \<open>
  Grouping by one column and counting another: the groups that count more than one value
  are the same when the rows whose counted value is missing are left out.
\<close>

lemma groupby_nunique_counted_drop_missing:
  "filter (\<lambda>(k, count). 1 < count)
     (groupby_nunique (data\<lparr>rows := filter (\<lambda>r. \<not> isnull (r val)) (rows data)\<rparr>) key val) =
   filter (\<lambda>(k, count). 1 < count) (groupby_nunique data key val)"
proof -
  let ?rs = "rows data"
  let ?rs' = "filter (\<lambda>r. \<not> isnull (r val)) (rows data)"
  let ?n = "\<lambda>k. nunique (map (\<lambda>r. r val) (filter (\<lambda>r. r key = k) ?rs))"
  let ?K = "unique (filter (\<lambda>k. \<not> isnull k) (map (\<lambda>r. r key) ?rs))"
  let ?K' = "unique (filter (\<lambda>k. \<not> isnull k) (map (\<lambda>r. r key) ?rs'))"
  have sets: "set (filter (\<lambda>k. 1 < ?n k) ?K') = set (filter (\<lambda>k. 1 < ?n k) ?K)"
  proof -
    have "k \<in> set ?K'" if "k \<in> set ?K" "1 < ?n k" for k
    proof -
      from that(2) have "0 < ?n k" by simp
      from nunique_positive [OF this] obtain r where "r \<in> set ?rs" "r key = k" "\<not> isnull (r val)"
        by blast
      moreover have "\<not> isnull k" using that(1) by (simp add: set_unique)
      ultimately show ?thesis by (auto simp: set_unique)
    qed
    moreover have "k \<in> set ?K" if "k \<in> set ?K'" for k
      using that by (auto simp: set_unique)
    ultimately show ?thesis by auto
  qed
  have inj: "inj_on sort_rank (set (filter (\<lambda>k. 1 < ?n k) ?K'))"
    by (rule inj_onI) (auto simp: set_unique intro: sort_rank_inj)
  have keys: "filter (\<lambda>k. 1 < ?n k) (sort_key sort_rank ?K') =
              filter (\<lambda>k. 1 < ?n k) (sort_key sort_rank ?K)"
    unfolding filter_sort
  proof (rule sort_key_same_set)
    show "distinct (filter (\<lambda>k. 1 < ?n k) ?K')" "distinct (filter (\<lambda>k. 1 < ?n k) ?K)"
      by (simp_all only: distinct_filter distinct_unique)
  qed (fact sets, fact inj)
  have "filter (\<lambda>(k, count). 1 < count) (map (\<lambda>k. (k, ?n k)) ks) =
        map (\<lambda>k. (k, ?n k)) (filter (\<lambda>k. 1 < ?n k) ks)" for ks
    by (induction ks) simp_all
  then show ?thesis
    unfolding groupby_nunique_eq group_keys_def
    using keys by (simp add: nunique_drop_missing del: filter_filter)
qed

text \<open>
  Claim C2, as amended. \<^verbatim>\<open>validate_id\<close> leaves the rows whose \<^verbatim>\<open>id\<close> is missing out:
  there is no group, sentinel or other, for the missing key. What it returns is the same
  with or without those rows; the counts per \<^verbatim>\<open>id\<close> are the same, and no group key of
  either grouping is missing. The result is, exactly, one
  \<^verbatim>\<open>ID ... has multiple delivery_person_ids.\<close> for each group of the first grouping that
  counts more than one value, followed by one \<^verbatim>\<open>Delivery Person ID ... has multiple ids.\<close>
  for each such group of the second: a discrepancy for a missing key is not among them.
\<close>

theorem validate_id_leaves_missing_ids_out:
  "validate_id lib (data\<lparr>rows := filter (\<lambda>r. \<not> isnull (r ''id'')) (rows data)\<rparr>) =
     validate_id lib data \<and>
   groupby_nunique (data\<lparr>rows := filter (\<lambda>r. \<not> isnull (r ''id'')) (rows data)\<rparr>)
      ''id'' ''delivery_person_id'' =
     groupby_nunique data ''id'' ''delivery_person_id'' \<and>
   list_all (\<lambda>(id_value, count). \<not> isnull id_value)
     (groupby_nunique data ''id'' ''delivery_person_id'') \<and>
   list_all (\<lambda>(delivery_person_id, count). \<not> isnull delivery_person_id)
     (groupby_nunique data ''delivery_person_id'' ''id'') \<and>
   (\<not> not_in ''id'' (columns data) \<and> \<not> not_in ''delivery_person_id'' (columns data) \<longrightarrow>
      validate_id lib data =
        Inr (map (\<lambda>(id_value, count).
                    ''ID '' @ py_str lib id_value @ '' has multiple delivery_person_ids.'')
               (filter (\<lambda>(id_value, count). 1 < count)
                  (groupby_nunique data ''id'' ''delivery_person_id'')) @
             map (\<lambda>(delivery_person_id, count).
                    ''Delivery Person ID '' @ py_str lib delivery_person_id @
                    '' has multiple ids.'')
               (filter (\<lambda>(delivery_person_id, count). 1 < count)
                  (groupby_nunique data ''delivery_person_id'' ''id''))))"
proof (intro conjI impI)
  show "validate_id lib (data\<lparr>rows := filter (\<lambda>r. \<not> isnull (r ''id'')) (rows data)\<rparr>) =
     validate_id lib data"
    unfolding validate_id_def Let_def groupby_nunique_drop_missing
      groupby_nunique_counted_drop_missing
    by simp
  show "groupby_nunique (data\<lparr>rows := filter (\<lambda>r. \<not> isnull (r ''id'')) (rows data)\<rparr>)
      ''id'' ''delivery_person_id'' =
     groupby_nunique data ''id'' ''delivery_person_id''"
    by (rule groupby_nunique_drop_missing)
  show "list_all (\<lambda>(id_value, count). \<not> isnull id_value)
     (groupby_nunique data ''id'' ''delivery_person_id'')"
    by (rule groupby_nunique_keys_present)
  show "list_all (\<lambda>(delivery_person_id, count). \<not> isnull delivery_person_id)
     (groupby_nunique data ''delivery_person_id'' ''id'')"
    by (rule groupby_nunique_keys_present)
next
  assume "\<not> not_in ''id'' (columns data) \<and> \<not> not_in ''delivery_person_id'' (columns data)"
  then show "validate_id lib data =
        Inr (map (\<lambda>(id_value, count).
                    ''ID '' @ py_str lib id_value @ '' has multiple delivery_person_ids.'')
               (filter (\<lambda>(id_value, count). 1 < count)
                  (groupby_nunique data ''id'' ''delivery_person_id'')) @
             map (\<lambda>(delivery_person_id, count).
                    ''Delivery Person ID '' @ py_str lib delivery_person_id @
                    '' has multiple ids.'')
               (filter (\<lambda>(delivery_person_id, count). 1 < count)
                  (groupby_nunique data ''delivery_person_id'' ''id'')))"
    by (simp add: validate_id_def Let_def)
qed

theorem validate_id_leaves_missing_ids_out_witness:
  "validate_id plain_library
     \<lparr>columns = [''id'', ''delivery_person_id''],
      rows = [blank_row(''id'' := Str ''0x4607'', ''delivery_person_id'' := Str ''DEL01''),
              blank_row(''delivery_person_id'' := Str ''DEL02''),
              blank_row(''id'' := Str ''0x4607'', ''delivery_person_id'' := Str ''DEL03''),
              blank_row(''delivery_person_id'' := Str ''DEL04'')]\<rparr> =
     Inr [''ID 0x4607 has multiple delivery_person_ids.''] \<and>
   validate_id plain_library
     \<lparr>columns = [''id'', ''delivery_person_id''],
      rows = [blank_row(''id'' := Str ''0x4607'', ''delivery_person_id'' := Str ''DEL01''),
              blank_row(''id'' := Str ''0x4607'', ''delivery_person_id'' := Str ''DEL03'')]\<rparr> =
     Inr [''ID 0x4607 has multiple delivery_person_ids.''] \<and>
   groupby_nunique
     \<lparr>columns = [''id'', ''delivery_person_id''],
      rows = [blank_row(''id'' := Str ''0x4607'', ''delivery_person_id'' := Str ''DEL01''),
              blank_row(''delivery_person_id'' := Str ''DEL02''),
              blank_row(''id'' := Str ''0x4607'', ''delivery_person_id'' := Str ''DEL03''),
              blank_row(''delivery_person_id'' := Str ''DEL04'')]\<rparr>
     ''id'' ''delivery_person_id'' = [(Str ''0x4607'', 2)]"
  using validate_id_leaves_missing_ids_out [of plain_library
     "\<lparr>columns = [''id'', ''delivery_person_id''],
      rows = [blank_row(''id'' := Str ''0x4607'', ''delivery_person_id'' := Str ''DEL01''),
              blank_row(''delivery_person_id'' := Str ''DEL02''),
              blank_row(''id'' := Str ''0x4607'', ''delivery_person_id'' := Str ''DEL03''),
              blank_row(''delivery_person_id'' := Str ''DEL04'')]\<rparr>"]
  by (simp add: validate_id_def groupby_nunique_def groupby_def nunique_def unique_def
      isnull_def blank_row_def not_in_def plain_library_def plain_str_def)

text \<open>
  Claim C2 as stated says that two rows with a missing \<^verbatim>\<open>id\<close> and different
  \<^verbatim>\<open>delivery_person_id\<close> values are reported as one group. On exactly such a frame
  \<^verbatim>\<open>validate_id\<close> reports nothing.
\<close>

theorem validate_id_drops_missing_id_rows:
  "validate_id plain_library
     \<lparr>columns = [''id'', ''delivery_person_id''],
      rows = [blank_row(''delivery_person_id'' := Str ''DEL01''),
              blank_row(''delivery_person_id'' := Str ''DEL02'')]\<rparr> = Inr []"
  by (simp add: validate_id_def groupby_nunique_def groupby_def nunique_def unique_def
      isnull_def blank_row_def not_in_def)

text \<open>
  Claim C3 says that an \<^verbatim>\<open>id\<close> whose rows hold a \<^verbatim>\<open>delivery_person_id\<close> and a missing one
  is reported as having multiple \<^verbatim>\<open>delivery_person_id\<close>s. \<^verbatim>\<open>nunique()\<close> does not count the
  missing value, so \<^verbatim>\<open>validate_id\<close> reports nothing for it; the sibling check
  \<^verbatim>\<open>validate_delivery_person_age\<close>, which takes \<^verbatim>\<open>unique()\<close>, does report the like case.
\<close>

theorem validate_id_ignores_missing_delivery_person:
  "validate_id lib
     \<lparr>columns = [''id'', ''delivery_person_id''],
      rows = [blank_row(''id'' := Str ''0x4607'', ''delivery_person_id'' := Str ''DEL01''),
              blank_row(''id'' := Str ''0x4607'')]\<rparr> = Inr [] \<and>
   validate_delivery_person_age
     \<lparr>columns = [''delivery_person_id'', ''delivery_person_age''],
      rows = [blank_row(''delivery_person_id'' := Str ''DEL01'', ''delivery_person_age'' := Num 30),
              blank_row(''delivery_person_id'' := Str ''DEL01'')]\<rparr> =
     Inr [(Str ''DEL01'', [Num 30, NaN])]"
  by (simp add: validate_id_def validate_delivery_person_age_def groupby_nunique_def
      groupby_unique_def groupby_def nunique_def unique_def isnull_def blank_row_def not_in_def)

section \<open>Order dates\<close>

lemma validate_order_date_frame:
  "\<not> not_in ''order_date'' (columns data) \<Longrightarrow>
   \<exists>result. validate_order_date lib now data =
     (result, assign data ''order_date''
                (map datetime_cell (to_datetime lib (column data ''order_date''))))"
  by (simp add: validate_order_date_def Let_def split: sum.splits)

text \<open>
  Claim C1 says that no validator changes the frame it is given, \<^verbatim>\<open>validate_order_date\<close>
  in particular. \<^verbatim>\<open>validate_order_date\<close> assigns the converted column to
  \<^verbatim>\<open>data['order_date']\<close>: the frame it leaves behind, whether it returns its message or
  raises at the comparison with the clock, is the frame it was given with that column
  replaced by what \<^verbatim>\<open>pd.to_datetime\<close> made of it. For a library that takes
  \<^verbatim>\<open>not a date\<close> for no date, as pandas does, the call returns its message and the cell
  that held this text holds \<open>NaT\<close> after it.
\<close>

theorem validate_order_date_overwrites_order_date:
  "(\<not> not_in ''order_date'' (columns data) \<longrightarrow>
      (\<exists>result. validate_order_date lib now data =
         (result, assign data ''order_date''
                    (map datetime_cell (to_datetime lib (column data ''order_date'')))))) \<and>
   (to_datetime lib [Str ''not a date''] = [None] \<longrightarrow>
      column unparsed_order_date ''order_date'' = [Str ''not a date''] \<and>
      (\<exists>message data'. validate_order_date lib now unparsed_order_date = (Inr message, data') \<and>
         column data' ''order_date'' = [NaT]))"
proof (intro conjI impI)
  assume "\<not> not_in ''order_date'' (columns data)"
  then show "\<exists>result. validate_order_date lib now data =
         (result, assign data ''order_date''
                    (map datetime_cell (to_datetime lib (column data ''order_date''))))"
    by (rule validate_order_date_frame)
next
  show "column unparsed_order_date ''order_date'' = [Str ''not a date'']"
    by (simp add: unparsed_order_date_def column_def)
next
  assume h: "to_datetime lib [Str ''not a date''] = [None]"
  then show "\<exists>message data'. validate_order_date lib now unparsed_order_date = (Inr message, data') \<and>
         column data' ''order_date'' = [NaT]"
    by (simp add: validate_order_date_def Let_def unparsed_order_date_def not_in_def column_def
        select_def assign_def frame_empty_def isnull_def datetime_cell_def gt_timestamp_def
        tz_aware_def)
qed

theorem validate_order_date_overwrites_order_date_witness:
  "\<exists>message data'.
     validate_order_date plain_library 1730000000000000000 unparsed_order_date =
       (Inr message, data') \<and>
     column data' ''order_date'' = [NaT]"
  using validate_order_date_overwrites_order_date
    [of unparsed_order_date plain_library 1730000000000000000]
  by (simp add: plain_library_def plain_date_def plain_datetime_def calendar_date_def
      two_digits_def unparsed_order_date_def not_in_def)

text \<open>
  What the write costs: a second call on the same frame reads the column the first call
  wrote. With the clock held at the same reading for both calls, the first call reports
  the text that is no date under \<^verbatim>\<open>invalid_dates\<close> only; the second finds \<open>NaT\<close> in its
  place and reports it under \<^verbatim>\<open>missing_dates\<close> as well, so the two messages differ.
\<close>

theorem validate_order_date_second_call_differs:
  "to_datetime lib [Str ''not a date''] = [None] \<and> to_datetime lib [NaT] = [None] \<longrightarrow>
   (\<exists>data' data''.
      validate_order_date lib now unparsed_order_date =
        (Inr (''Discrepancies found in order dates:\<newline>'' @
              ''invalid_dates: Invalid order dates found: '' @ repr_list lib [NaT] @ ''\<newline>''),
         data') \<and>
      validate_order_date lib now data' =
        (Inr (''Discrepancies found in order dates:\<newline>'' @
              ''missing_dates: Missing order dates found: 1\<newline>'' @
              ''invalid_dates: Invalid order dates found: '' @ repr_list lib [NaT] @ ''\<newline>''),
         data'') \<and>
      ''Discrepancies found in order dates:\<newline>'' @
        ''invalid_dates: Invalid order dates found: '' @ repr_list lib [NaT] @ ''\<newline>'' \<noteq>
      ''Discrepancies found in order dates:\<newline>'' @
        ''missing_dates: Missing order dates found: 1\<newline>'' @
        ''invalid_dates: Invalid order dates found: '' @ repr_list lib [NaT] @ ''\<newline>'')"
  by (simp add: validate_order_date_def Let_def unparsed_order_date_def not_in_def column_def
      select_def assign_def frame_empty_def isnull_def datetime_cell_def gt_timestamp_def
      tz_aware_def is_datetime64_any_dtype_def str_nat.simps)

theorem validate_order_date_second_call_differs_witness:
  "\<exists>data' data''.
      validate_order_date plain_library 1730000000000000000 unparsed_order_date =
        (Inr (''Discrepancies found in order dates:\<newline>'' @
              ''invalid_dates: Invalid order dates found: [NaT]\<newline>''), data') \<and>
      validate_order_date plain_library 1730000000000000000 data' =
        (Inr (''Discrepancies found in order dates:\<newline>'' @
              ''missing_dates: Missing order dates found: 1\<newline>'' @
              ''invalid_dates: Invalid order dates found: [NaT]\<newline>''), data'')"
  using validate_order_date_second_call_differs [of plain_library 1730000000000000000]
  by (simp add: plain_library_def plain_date_def plain_datetime_def calendar_date_def
      two_digits_def repr_list_def plain_repr_def plain_str_def)












section \<open>Missing columns\<close>


















































end
